theory Spec2Isabelle
  imports Complex_Main "HOL-Library.AList" "HOL-Library.Multiset"
begin

section \<open>The tetwrap adapter around the volume mesh generator\<close>

text \<open>
  A shallow embedding of \<^verbatim>\<open>tetwrap.cpp\<close>: the buffer converters, the boundary face
  extractor \<^verbatim>\<open>compute_boundary_face_tris\<close>, the core routine
  \<^verbatim>\<open>tetrahedralize_core\<close> and the legacy entry point \<^verbatim>\<open>build_volume_mesh\<close>.
  The generator itself (\<^verbatim>\<open>tetrahedralize\<close>) is a parameter of the model.
\<close>

subsection \<open>C integers\<close>

text \<open>
  Array elements and markers are C \<^verbatim>\<open>int\<close>s (32 bits). They are modelled as
  \<^typ>\<open>int\<close>; where the source computes with them the two's complement wrap-around
  is written out with \<open>wrap32\<close>.
\<close>

definition wrap32 :: "int \<Rightarrow> int" where
  "wrap32 x = (x + 2 ^ 31) mod 2 ^ 32 - 2 ^ 31"

definition INT_MAX :: int where
  "INT_MAX = 2147483647"

text \<open>\<^verbatim>\<open>static_cast<int>\<close> of an array extent or a container size.\<close>

definition static_cast_int :: "nat \<Rightarrow> int" where
  "static_cast_int n = wrap32 (int n)"

subsection \<open>Dense arrays\<close>

text \<open>
  A \<^verbatim>\<open>py::array_t\<close> in C order: its rank, its extents and its elements, row after
  row. \<open>at2\<close> and \<open>at1\<close> are the unchecked element accesses \<^verbatim>\<open>A(i, j)\<close> and
  \<^verbatim>\<open>A(i)\<close>.
\<close>

record 'a ndarray =
  ndim :: nat
  shape :: "nat list"
  data :: "'a list"

text \<open>The default-constructed \<^verbatim>\<open>py::array_t<T>()\<close>: one dimension of extent 0.\<close>

definition empty_array :: "'a ndarray" where
  "empty_array = \<lparr>ndim = 1, shape = [0], data = []\<rparr>"

definition at2 :: "'a ndarray \<Rightarrow> nat \<Rightarrow> nat \<Rightarrow> 'a" where
  "at2 A i j = data A ! (i * (shape A ! 1) + j)"

definition at1 :: "'a ndarray \<Rightarrow> nat \<Rightarrow> 'a" where
  "at1 A i = data A ! i"

subsection \<open>Errors\<close>

text \<open>
  Every \<^verbatim>\<open>throw\<close> of the source is a constructor; \<open>what\<close> gives the message.
  \<open>BadArrayNewLength\<close> is the failure of \<^verbatim>\<open>new T[n]\<close> at a negative \<open>n\<close>, and
  \<open>SwitchesNot1D\<close> the failure of \<^verbatim>\<open>unchecked<1>()\<close> on an array of another rank;
  these two are thrown by the runtime and by the array library, and \<open>what\<close> gives the
  head of their message only.
\<close>

datatype error =
    VerticesShape
  | MeshFacetsShape
  | NoBoundaryFacets
  | MarkersNot1D
  | MarkersLength
  | VerticesEmpty
  | MeshFacetsNegative
  | MeshFacetIndex nat
  | BoundaryFacetShort nat
  | BoundaryFacetIndex nat
  | BadArrayNewLength
  | SwitchesKind
  | SwitchesNot1D
  | TetGenFailed string
  | TetGenFailedUnknown
  | TetsShape
  | NeighborsShape
  | TetsNeighborsLength

text \<open>\<^verbatim>\<open>std::to_string\<close> on a non-negative index.\<close>

definition digit_char :: "nat \<Rightarrow> char" where
  "digit_char d = ''0123456789'' ! d"

function to_string :: "nat \<Rightarrow> string" where
  "to_string n = (if n < 10 then [digit_char n] else to_string (n div 10) @ [digit_char (n mod 10)])"
  by pat_completeness auto
termination
  by (relation "measure (\<lambda>n. n)") auto

fun what :: "error \<Rightarrow> string" where
  "what VerticesShape = ''vertices must have shape (N,3)''"
| "what MeshFacetsShape = ''mesh_facets must have shape (M,3)''"
| "what NoBoundaryFacets =
     ''boundary_facets must contain at least one polygon (list of vertex indices)''"
| "what MarkersNot1D = ''mesh_facet_markers must be a 1D array''"
| "what MarkersLength = ''mesh_facet_markers length must match number of mesh facets''"
| "what VerticesEmpty = ''vertices: N <= 0''"
| "what MeshFacetsNegative = ''mesh_facets: M < 0''"
| "what (MeshFacetIndex i) = ''mesh_facets index out of range at row '' @ to_string i"
| "what (BoundaryFacetShort bi) =
     ''boundary facet has fewer than 3 vertices: polygon '' @ to_string bi"
| "what (BoundaryFacetIndex bi) =
     ''boundary_facets index out of range at polygon '' @ to_string bi"
| "what BadArrayNewLength = ''std::bad_array_new_length''"
| "what SwitchesKind = ''tetgen_switches must be str, bytes, or 1D byte array''"
| "what SwitchesNot1D = ''array has incorrect number of dimensions''"
| "what (TetGenFailed msg) = ''TetGen failed: '' @ msg"
| "what TetGenFailedUnknown =
     ''TetGen failed with an unknown error. This may be due to invalid input geometry or incompatible switches.''"
| "what TetsShape = ''tets must have shape (T,4)''"
| "what NeighborsShape = ''neighbors must have shape (T,4)''"
| "what TetsNeighborsLength = ''tets and neighbors must have same length''"

subsection \<open>Helper conversions\<close>

text \<open>
  A C buffer is \<open>None\<close> (the null pointer) or \<open>Some\<close> of its elements. The converters
  return the default-constructed array for a null buffer or a non-positive extent, and
  otherwise copy \<^verbatim>\<open>src[i * m + j]\<close> row by row. \<open>to_array\<close> is
  \<^verbatim>\<open>to_array_f64\<close> and \<^verbatim>\<open>to_array_i32\<close>, which differ in the element type
  only, and \<open>to_vector\<close> is \<^verbatim>\<open>to_vector_i32\<close> and \<^verbatim>\<open>to_vector_f64\<close>.
\<close>

definition to_array :: "'a list option \<Rightarrow> int \<Rightarrow> int \<Rightarrow> 'a ndarray" where
  "to_array src n m =
     (case src of
        None \<Rightarrow> empty_array
      | Some s \<Rightarrow>
          if n \<le> 0 \<or> m \<le> 0 then empty_array
          else \<lparr>ndim = 2, shape = [nat n, nat m],
                data = concat (map (\<lambda>i. map (\<lambda>j. s ! (i * nat m + j)) [0..<nat m]) [0..<nat n])\<rparr>)"

definition to_vector :: "'a list option \<Rightarrow> int \<Rightarrow> 'a ndarray" where
  "to_vector src n =
     (case src of
        None \<Rightarrow> empty_array
      | Some s \<Rightarrow>
          if n \<le> 0 then empty_array
          else \<lparr>ndim = 1, shape = [nat n], data = map (\<lambda>i. s ! i) [0..<nat n]\<rparr>)"

subsection \<open>Boundary face extractor\<close>

text \<open>The constant table \<^verbatim>\<open>faces_of_tet[4][3]\<close>: the face opposite corner \<open>lf\<close>.\<close>

definition faces_of_tet :: "nat \<Rightarrow> nat list" where
  "faces_of_tet lf = [[1, 2, 3], [0, 3, 2], [0, 1, 3], [0, 2, 1]] ! lf"

text \<open>First pass (lines 132-136): count the pairs whose neighbour slot is negative.\<close>

definition count_step :: "int ndarray \<Rightarrow> nat \<Rightarrow> nat \<Rightarrow> nat \<Rightarrow> nat" where
  "count_step nbrs i lf B = (if at2 nbrs i lf < 0 then B + 1 else B)"

definition count_boundary :: "int ndarray \<Rightarrow> nat \<Rightarrow> nat" where
  "count_boundary nbrs T =
     fold (\<lambda>i B. fold (\<lambda>lf B. count_step nbrs i lf B) [0..<4] B) [0..<T] 0"

text \<open>
  Second pass (lines 142-154): the state is the element buffer of the \<open>(B,3)\<close> array \<open>F\<close> and the write
  cursor \<open>b\<close>; \<^verbatim>\<open>F(b, k)\<close> is element \<open>b * 3 + k\<close>.
\<close>

definition fill_step ::
  "int ndarray \<Rightarrow> int ndarray \<Rightarrow> nat \<Rightarrow> nat \<Rightarrow> int list \<times> nat \<Rightarrow> int list \<times> nat" where
  "fill_step tets nbrs i lf s =
     (case s of (F, b) \<Rightarrow>
        if at2 nbrs i lf < 0 then
          (let pat = faces_of_tet lf
           in (F[b * 3 + 0 := at2 tets i (pat ! 0),
                 b * 3 + 1 := at2 tets i (pat ! 1),
                 b * 3 + 2 := at2 tets i (pat ! 2)], b + 1))
        else (F, b))"

definition fill_boundary ::
  "int ndarray \<Rightarrow> int ndarray \<Rightarrow> nat \<Rightarrow> int list \<Rightarrow> int list \<times> nat" where
  "fill_boundary tets nbrs T F0 =
     fold (\<lambda>i s. fold (\<lambda>lf s. fill_step tets nbrs i lf s) [0..<4] s) [0..<T] (F0, 0)"

text \<open>
  The freshly allocated \<open>(B,3)\<close> array is modelled as filled with zeros; the second pass
  writes every element of it.
\<close>

definition compute_boundary_face_tris :: "int ndarray \<Rightarrow> int ndarray \<Rightarrow> error + int ndarray" where
  "compute_boundary_face_tris tets nbrs =
     (if ndim tets \<noteq> 2 \<or> shape tets ! 1 \<noteq> 4 then Inl TetsShape
      else if ndim nbrs \<noteq> 2 \<or> shape nbrs ! 1 \<noteq> 4 then Inl NeighborsShape
      else if shape tets ! 0 \<noteq> shape nbrs ! 0 then Inl TetsNeighborsLength
      else
        (let T = shape tets ! 0;
             B = count_boundary nbrs T;
             faces = \<lparr>ndim = 2, shape = [B, 3], data = replicate (B * 3) 0\<rparr>
         in Inr (faces\<lparr>data := fst (fill_boundary tets nbrs T (data faces))\<rparr>)))"

subsection \<open>The generator's exchange structure\<close>

text \<open>
  \<^verbatim>\<open>tetgenio\<close> is declared in the generator's own header, not in the source file;
  the records below hold the fields that the source reads or writes, at the types it
  uses them. A pointer field is \<open>None\<close> when null. \<open>tetgenio_init\<close> stands for the
  default-constructed object, with null buffers and zero counts; the source sets every
  input field it relies on and reads output fields only.
\<close>

record polygon =
  vertexlist :: "int list"
  numberofvertices :: int

record 'r facet =
  polygonlist :: "polygon list"
  numberofpolygons :: int
  holelist :: "'r list option"
  numberofholes :: int

record 'r tetgenio =
  firstnumber :: int
  numberofpoints :: int
  pointlist :: "'r list option"
  pointmarkerlist :: "int list option"
  numberoffacets :: int
  facetlist :: "'r facet list option"
  facetmarkerlist :: "int list option"
  numberoftetrahedra :: int
  numberofcorners :: int
  numberoftetrahedronattributes :: int
  tetrahedronlist :: "int list option"
  tetrahedronattributelist :: "'r list option"
  tetrahedronvolumelist :: "'r list option"
  neighborlist :: "int list option"
  numberoftrifaces :: int
  trifacelist :: "int list option"
  trifacemarkerlist :: "int list option"
  numberofedges :: int
  edgelist :: "int list option"
  edgemarkerlist :: "int list option"

definition facet_init :: "'r facet" where
  "facet_init = \<lparr>polygonlist = [], numberofpolygons = 0, holelist = None, numberofholes = 0\<rparr>"

definition tetgenio_init :: "'r tetgenio" where
  "tetgenio_init =
     \<lparr>firstnumber = 0, numberofpoints = 0, pointlist = None, pointmarkerlist = None,
      numberoffacets = 0, facetlist = None, facetmarkerlist = None,
      numberoftetrahedra = 0, numberofcorners = 4, numberoftetrahedronattributes = 0,
      tetrahedronlist = None, tetrahedronattributelist = None, tetrahedronvolumelist = None,
      neighborlist = None, numberoftrifaces = 0, trifacelist = None, trifacemarkerlist = None,
      numberofedges = 0, edgelist = None, edgemarkerlist = None\<rparr>"

text \<open>
  One call of the generator: it returns its output structure, throws a
  \<^verbatim>\<open>std::exception\<close> with a message, or throws anything else.
\<close>

datatype 'r generated = Returns "'r tetgenio" | ThrowsStd string | ThrowsOther

type_synonym 'r generator = "string \<Rightarrow> 'r tetgenio \<Rightarrow> 'r generated"

subsection \<open>Input validation\<close>

text \<open>
  The optional marker array (lines 180-189): rank 1 and as long as there are mesh facets.
  Then the two range loops (lines 195-214).
\<close>

definition check_markers :: "int ndarray option \<Rightarrow> int \<Rightarrow> error + int list option" where
  "check_markers mesh_facet_markers_obj M =
     (case mesh_facet_markers_obj of
        None \<Rightarrow> Inr None
      | Some mesh_facet_markers \<Rightarrow>
          if ndim mesh_facet_markers \<noteq> 1 then Inl MarkersNot1D
          else if int (shape mesh_facet_markers ! 0) \<noteq> M then Inl MarkersLength
          else Inr (Some (data mesh_facet_markers)))"

definition mesh_facet_row_bad :: "int ndarray \<Rightarrow> int \<Rightarrow> nat \<Rightarrow> bool" where
  "mesh_facet_row_bad F N i = (\<exists>k\<in>set [0..<3]. at2 F i k < 0 \<or> at2 F i k \<ge> N)"

fun check_mesh_facets :: "int ndarray \<Rightarrow> int \<Rightarrow> nat list \<Rightarrow> error option" where
  "check_mesh_facets F N [] = None"
| "check_mesh_facets F N (i # rows) =
     (if mesh_facet_row_bad F N i then Some (MeshFacetIndex i)
      else check_mesh_facets F N rows)"

fun check_boundary_facets :: "int list list \<Rightarrow> int \<Rightarrow> nat \<Rightarrow> error option" where
  "check_boundary_facets [] N bi = None"
| "check_boundary_facets (poly # polys) N bi =
     (if length poly < 3 then Some (BoundaryFacetShort bi)
      else if (\<exists>vid\<in>set poly. vid < 0 \<or> vid \<ge> N) then Some (BoundaryFacetIndex bi)
      else check_boundary_facets polys N (bi + 1))"

text \<open>
  The checks of \<^verbatim>\<open>tetrahedralize_core\<close> up to the declaration of the exchange
  structures (lines 168-214), in the order of the source. On success: \<open>N\<close>, \<open>M\<close>,
  \<open>B\<close> and the marker pointer.
\<close>

definition validate ::
  "'r ndarray \<Rightarrow> int ndarray \<Rightarrow> int ndarray option \<Rightarrow> int list list
     \<Rightarrow> error + (int \<times> int \<times> int \<times> int list option)" where
  "validate vertices mesh_facets mesh_facet_markers_obj boundary_facets =
     (if ndim vertices \<noteq> 2 \<or> shape vertices ! 1 \<noteq> 3 then Inl VerticesShape
      else if ndim mesh_facets \<noteq> 2 \<or> shape mesh_facets ! 1 \<noteq> 3 then Inl MeshFacetsShape
      else if length boundary_facets < 1 then Inl NoBoundaryFacets
      else
        (let N = static_cast_int (shape vertices ! 0);
             M = static_cast_int (shape mesh_facets ! 0);
             B = static_cast_int (length boundary_facets)
         in case check_markers mesh_facet_markers_obj M of
              Inl e \<Rightarrow> Inl e
            | Inr mesh_facet_marker_ptr \<Rightarrow>
                if N \<le> 0 then Inl VerticesEmpty
                else if M < 0 then Inl MeshFacetsNegative
                else
                  (case check_mesh_facets mesh_facets N [0..<nat M] of
                     Some e \<Rightarrow> Inl e
                   | None \<Rightarrow>
                       (case check_boundary_facets boundary_facets N 0 of
                          Some e \<Rightarrow> Inl e
                        | None \<Rightarrow> Inr (N, M, B, mesh_facet_marker_ptr)))))"

subsection \<open>PLC assembly\<close>

text \<open>
  The marker of mesh facet \<open>fi\<close> (lines 250-255) and of loop \<open>bi\<close> (line 271). The
  addition and the negation are operations on C \<^verbatim>\<open>int\<close>s; at an overflow, which C++
  leaves undefined, they are taken to wrap as the machine's two's complement operations
  do.
\<close>

definition marker_value :: "int list option \<Rightarrow> nat \<Rightarrow> int" where
  "marker_value mesh_facet_marker_ptr fi =
     (case mesh_facet_marker_ptr of
        None \<Rightarrow> - 1
      | Some ms \<Rightarrow> (let raw_marker = ms ! fi in if raw_marker < 0 then - 1 else wrap32 (raw_marker + 1)))"

definition loop_marker :: "nat \<Rightarrow> int" where
  "loop_marker bi = wrap32 (- wrap32 (int bi + 2))"

definition mesh_facet :: "int ndarray \<Rightarrow> nat \<Rightarrow> 'r facet" where
  "mesh_facet F fi =
     \<lparr>polygonlist = [\<lparr>vertexlist = [at2 F fi 0, at2 F fi 1, at2 F fi 2], numberofvertices = 3\<rparr>],
      numberofpolygons = 1, holelist = None, numberofholes = 0\<rparr>"

definition boundary_facet :: "int list \<Rightarrow> 'r facet" where
  "boundary_facet loop =
     (let nv = static_cast_int (length loop)
      in \<lparr>polygonlist = [\<lparr>vertexlist = map (\<lambda>j. loop ! j) [0..<nat nv], numberofvertices = nv\<rparr>],
          numberofpolygons = 1, holelist = None, numberofholes = 0\<rparr>)"

text \<open>
  The two assembly loops (lines 237-272) write slot \<open>fi\<close> and slot \<open>M + bi\<close> of the
  facet array and of the facet marker array.
\<close>

definition mesh_step ::
  "int ndarray \<Rightarrow> int list option \<Rightarrow> nat \<Rightarrow> 'r facet list \<times> int list \<Rightarrow> 'r facet list \<times> int list" where
  "mesh_step F mesh_facet_marker_ptr fi s =
     (case s of (fl, ml) \<Rightarrow>
        (fl[fi := mesh_facet F fi], ml[fi := marker_value mesh_facet_marker_ptr fi]))"

definition boundary_step ::
  "int list list \<Rightarrow> int \<Rightarrow> nat \<Rightarrow> 'r facet list \<times> int list \<Rightarrow> 'r facet list \<times> int list" where
  "boundary_step boundary_facets M bi s =
     (case s of (fl, ml) \<Rightarrow>
        (fl[nat (M + int bi) := boundary_facet (boundary_facets ! bi)],
         ml[nat (M + int bi) := loop_marker bi]))"

text \<open>
  Lines 216-234. The arrays come from \<^verbatim>\<open>new\<close>: a negative length throws. The
  marker array is modelled as zeros before the loops run; no marker the loops write is
  zero.
\<close>

definition assemble ::
  "'r ndarray \<Rightarrow> int ndarray \<Rightarrow> int list option \<Rightarrow> int list list \<Rightarrow> int \<Rightarrow> int \<Rightarrow> int
     \<Rightarrow> error + 'r tetgenio" where
  "assemble V F mesh_facet_marker_ptr boundary_facets N M B =
     (if wrap32 (N * 3) < 0 then Inl BadArrayNewLength
      else
        (let T = wrap32 (M + B)
         in if T < 0 then Inl BadArrayNewLength
            else
              (let s0 = (replicate (nat T) facet_init, replicate (nat T) 0);
                   s1 = fold (mesh_step F mesh_facet_marker_ptr) [0..<nat M] s0;
                   s2 = fold (boundary_step boundary_facets M) [0..<nat B] s1
               in Inr (tetgenio_init
                    \<lparr>firstnumber := 0,
                     numberofpoints := N,
                     pointlist := Some (concat (map (\<lambda>i. [at2 V i 0, at2 V i 1, at2 V i 2]) [0..<nat N])),
                     numberoffacets := T,
                     facetlist := Some (fst s2),
                     facetmarkerlist := Some (snd s2)\<rparr>))))"

text \<open>The PLC assembler: the checks, then the assembly.\<close>

definition assemble_plc ::
  "'r ndarray \<Rightarrow> int ndarray \<Rightarrow> int ndarray option \<Rightarrow> int list list \<Rightarrow> error + 'r tetgenio" where
  "assemble_plc vertices mesh_facets mesh_facet_markers_obj boundary_facets =
     (case validate vertices mesh_facets mesh_facet_markers_obj boundary_facets of
        Inl e \<Rightarrow> Inl e
      | Inr (N, M, B, mesh_facet_marker_ptr) \<Rightarrow>
          assemble vertices mesh_facets mesh_facet_marker_ptr boundary_facets N M B)"

subsection \<open>Switch buffer\<close>

text \<open>
  Lines 275-309. The configuration payload: a \<^verbatim>\<open>str\<close> or \<^verbatim>\<open>bytes\<close> (as the
  bytes that \<^verbatim>\<open>py::cast<std::string>\<close> yields), an array of bytes, or any other
  object.
\<close>

datatype py_switches = PyStr string | PyBytes string | PyArray "char ndarray" | PyOther

definition NUL :: char where
  "NUL = CHR 0x00"

definition switch_buffer :: "py_switches \<Rightarrow> error + string" where
  "switch_buffer tetgen_switches =
     (case tetgen_switches of
        PyStr s \<Rightarrow> Inr (s @ [NUL])
      | PyBytes s \<Rightarrow> Inr (s @ [NUL])
      | PyArray a \<Rightarrow>
          if ndim a \<noteq> 1 then Inl SwitchesNot1D
          else Inr (map (\<lambda>i. at1 a i) [0..<shape a ! 0] @ [NUL])
      | PyOther \<Rightarrow> Inl SwitchesKind)"

text \<open>The scan for the two flags stops at the first NUL.\<close>

fun scan_flags :: "string \<Rightarrow> bool \<times> bool \<Rightarrow> bool \<times> bool" where
  "scan_flags [] hf = hf"
| "scan_flags (c # cs) (has_n, has_f) =
     (if c = NUL then (has_n, has_f)
      else scan_flags cs (has_n \<or> c = CHR ''n'', has_f \<or> c = CHR ''f''))"

definition ensure_flags :: "bool \<Rightarrow> string \<Rightarrow> string" where
  "ensure_flags compute_boundary_faces sw =
     (if compute_boundary_faces then
        (case scan_flags sw (False, False) of (has_n, has_f) \<Rightarrow>
           if \<not> has_n \<or> \<not> has_f then
             (let sw1 = (if sw \<noteq> [] \<and> last sw = NUL then butlast sw else sw);
                  sw2 = (if \<not> has_n then sw1 @ [CHR ''n''] else sw1);
                  sw3 = (if \<not> has_f then sw2 @ [CHR ''f''] else sw2)
              in sw3 @ [NUL])
           else sw)
      else sw)"

text \<open>The configuration normalizer: the buffer, then the flags.\<close>

definition normalize_switches :: "py_switches \<Rightarrow> bool \<Rightarrow> error + string" where
  "normalize_switches tetgen_switches compute_boundary_faces =
     (case switch_buffer tetgen_switches of
        Inl e \<Rightarrow> Inl e
      | Inr sw \<Rightarrow> Inr (ensure_flags compute_boundary_faces sw))"

subsection \<open>Result and marker reconciliation\<close>

record 'r TetwrapIO =
  points :: "'r ndarray"
  tets :: "int ndarray"
  tri_faces :: "int ndarray option"
  tri_markers :: "int ndarray option"
  boundary_tri_faces :: "int ndarray option"
  boundary_tri_markers :: "int ndarray option"
  edges :: "int ndarray option"
  edge_markers :: "int ndarray option"
  neighbors :: "int ndarray option"
  point_markers :: "int ndarray option"
  tet_attr :: "'r ndarray option"
  tet_vol :: "'r ndarray option"
  corners :: int
  switches :: string

text \<open>The lookup key of a triangle: its three indices after \<^verbatim>\<open>std::sort\<close>.\<close>

definition face_key :: "int \<Rightarrow> int \<Rightarrow> int \<Rightarrow> int list" where
  "face_key a b c = sort [a, b, c]"

text \<open>
  \<^verbatim>\<open>triface_marker_map\<close>, a \<^verbatim>\<open>std::map\<close>, as an association list with one entry
  per key: \<open>AList.update\<close> is \<^verbatim>\<open>m[key] = v\<close>, \<open>map_of\<close> is \<^verbatim>\<open>find\<close>, and the
  map is empty when the list is.
\<close>

definition triface_marker_map :: "'r tetgenio \<Rightarrow> (int list \<times> int) list" where
  "triface_marker_map out =
     (case (trifacelist out, trifacemarkerlist out) of
        (Some tfl, Some tml) \<Rightarrow>
          if numberoftrifaces out > 0 then
            fold (\<lambda>i m. AList.update (face_key (tfl ! (3 * i + 0)) (tfl ! (3 * i + 1)) (tfl ! (3 * i + 2)))
                           (tml ! i) m)
              [0..<nat (numberoftrifaces out)] []
          else []
      | _ \<Rightarrow> [])"

definition boundary_markers :: "(int list \<times> int) list \<Rightarrow> int ndarray \<Rightarrow> int ndarray" where
  "boundary_markers m faces =
     \<lparr>ndim = 1, shape = [shape faces ! 0],
      data = fold (\<lambda>i markers.
                     markers[i := (case map_of m (face_key (at2 faces i 0) (at2 faces i 1) (at2 faces i 2)) of
                                     Some v \<Rightarrow> v
                                   | None \<Rightarrow> 0)])
               [0..<shape faces ! 0] (replicate (shape faces ! 0) 0)\<rparr>"

text \<open>Everything after the generator has returned (lines 322-415).\<close>

definition populate_result :: "py_switches \<Rightarrow> bool \<Rightarrow> 'r tetgenio \<Rightarrow> error + 'r TetwrapIO" where
  "populate_result tetgen_switches compute_boundary_faces out =
     (let res_points = to_array (pointlist out) (numberofpoints out) 3;
          res_tets = to_array (tetrahedronlist out) (numberoftetrahedra out) (numberofcorners out);
          res_switches = (case tetgen_switches of PyStr s \<Rightarrow> s | _ \<Rightarrow> []);
          faces_present = (numberoftrifaces out > 0 \<and> trifacelist out \<noteq> None);
          res_tri_faces =
            (if faces_present then Some (to_array (trifacelist out) (numberoftrifaces out) 3) else None);
          res_tri_markers =
            (if faces_present \<and> trifacemarkerlist out \<noteq> None
             then Some (to_vector (trifacemarkerlist out) (numberoftrifaces out)) else None);
          m = triface_marker_map out;
          edges_present = (numberofedges out > 0 \<and> edgelist out \<noteq> None);
          res_edges =
            (if edges_present then Some (to_array (edgelist out) (numberofedges out) 2) else None);
          res_edge_markers =
            (if edges_present \<and> edgemarkerlist out \<noteq> None
             then Some (to_vector (edgemarkerlist out) (numberofedges out)) else None);
          res_neighbors =
            (if neighborlist out \<noteq> None
             then Some (to_array (neighborlist out) (numberoftetrahedra out) 4) else None);
          res_point_markers =
            (if pointmarkerlist out \<noteq> None
             then Some (to_vector (pointmarkerlist out) (numberofpoints out)) else None);
          res_tet_attr =
            (if tetrahedronattributelist out \<noteq> None \<and> numberoftetrahedronattributes out > 0
             then Some (to_array (tetrahedronattributelist out) (numberoftetrahedra out)
                          (numberoftetrahedronattributes out))
             else None);
          res_tet_vol =
            (if tetrahedronvolumelist out \<noteq> None
             then Some (to_vector (tetrahedronvolumelist out) (numberoftetrahedra out)) else None);
          boundary =
            (case res_neighbors of
               Some nb \<Rightarrow>
                 if compute_boundary_faces then
                   (case compute_boundary_face_tris res_tets nb of
                      Inl e \<Rightarrow> Inl e
                    | Inr boundary_faces \<Rightarrow>
                        Inr (Some boundary_faces,
                             if m \<noteq> [] then Some (boundary_markers m boundary_faces) else None))
                 else Inr (None, None)
             | None \<Rightarrow> Inr (None, None))
      in case boundary of
           Inl e \<Rightarrow> Inl e
         | Inr (res_boundary_tri_faces, res_boundary_tri_markers) \<Rightarrow>
             Inr \<lparr>points = res_points, tets = res_tets,
                  tri_faces = res_tri_faces, tri_markers = res_tri_markers,
                  boundary_tri_faces = res_boundary_tri_faces,
                  boundary_tri_markers = res_boundary_tri_markers,
                  edges = res_edges, edge_markers = res_edge_markers,
                  neighbors = res_neighbors, point_markers = res_point_markers,
                  tet_attr = res_tet_attr, tet_vol = res_tet_vol,
                  corners = numberofcorners out, switches = res_switches\<rparr>)"

subsection \<open>The core routine and the legacy entry point\<close>

text \<open>
  The result is the list of generator calls made, each with the switch buffer and the
  exchange structure handed over, and the value returned or the exception thrown.
\<close>

definition tetrahedralize_core ::
  "'r generator \<Rightarrow> 'r ndarray \<Rightarrow> int ndarray \<Rightarrow> int ndarray option \<Rightarrow> int list list
     \<Rightarrow> py_switches \<Rightarrow> bool \<Rightarrow> (string \<times> 'r tetgenio) list \<times> (error + 'r TetwrapIO)" where
  "tetrahedralize_core tetrahedralize vertices mesh_facets mesh_facet_markers_obj boundary_facets
       tetgen_switches compute_boundary_faces =
     (case assemble_plc vertices mesh_facets mesh_facet_markers_obj boundary_facets of
        Inl e \<Rightarrow> ([], Inl e)
      | Inr inp \<Rightarrow>
          (case normalize_switches tetgen_switches compute_boundary_faces of
             Inl e \<Rightarrow> ([], Inl e)
           | Inr sw \<Rightarrow>
               (case tetrahedralize sw inp of
                  ThrowsStd msg \<Rightarrow> ([(sw, inp)], Inl (TetGenFailed msg))
                | ThrowsOther \<Rightarrow> ([(sw, inp)], Inl TetGenFailedUnknown)
                | Returns out \<Rightarrow>
                    ([(sw, inp)], populate_result tetgen_switches compute_boundary_faces out))))"

definition build_volume_mesh ::
  "'r generator \<Rightarrow> 'r ndarray \<Rightarrow> int ndarray \<Rightarrow> int list list \<Rightarrow> py_switches
     \<Rightarrow> (string \<times> 'r tetgenio) list \<times> (error + 'r ndarray \<times> int ndarray)" where
  "build_volume_mesh tetrahedralize vertices mesh_facets boundary_facets tetgen_switches =
     (case tetrahedralize_core tetrahedralize vertices mesh_facets None boundary_facets
             tetgen_switches True of
        (calls, Inl e) \<Rightarrow> (calls, Inl e)
      | (calls, Inr io) \<Rightarrow> (calls, Inr (points io, tets io)))"

section \<open>Notions used to state the properties\<close>

text \<open>An extent that a C \<^verbatim>\<open>int\<close> holds without wrapping.\<close>

definition fits_int :: "nat \<Rightarrow> bool" where
  "fits_int n = (int n \<le> INT_MAX)"

text \<open>
  The (tetrahedron, local face) pairs without a neighbour, in ascending order of the
  pair, and the triangle the local face pattern gives for one pair.
\<close>

definition boundary_pairs :: "int ndarray \<Rightarrow> nat \<Rightarrow> (nat \<times> nat) list" where
  "boundary_pairs nbrs T =
     filter (\<lambda>(i, lf). at2 nbrs i lf < 0) (List.product [0..<T] [0..<4])"

definition boundary_tri :: "int ndarray \<Rightarrow> nat \<times> nat \<Rightarrow> int list" where
  "boundary_tri tts p =
     (case p of (i, lf) \<Rightarrow>
        [at2 tts i (faces_of_tet lf ! 0), at2 tts i (faces_of_tet lf ! 1),
         at2 tts i (faces_of_tet lf ! 2)])"

definition pair_less :: "nat \<times> nat \<Rightarrow> nat \<times> nat \<Rightarrow> bool" where
  "pair_less p q = (fst p < fst q \<or> (fst p = fst q \<and> snd p < snd q))"

text \<open>
  A valid input in the sense of the PLC assembler's contract: vertices of shape \<open>(N,3)\<close>
  with \<open>N > 0\<close>, mesh facets of shape \<open>(M,3)\<close>, every index in \<open>[0, N)\<close>, at least
  one boundary loop, every loop with three or more vertices, and a marker array, when
  given, of rank 1 and length \<open>M\<close>.
\<close>

definition valid_input ::
  "'r ndarray \<Rightarrow> int ndarray \<Rightarrow> int ndarray option \<Rightarrow> int list list \<Rightarrow> bool" where
  "valid_input V F mk loops =
     (ndim V = 2 \<and> shape V ! 1 = 3 \<and> ndim F = 2 \<and> shape F ! 1 = 3
      \<and> 0 < shape V ! 0
      \<and> (\<forall>i\<in>set [0..<shape F ! 0]. \<forall>k\<in>set [0..<3].
            0 \<le> at2 F i k \<and> at2 F i k < int (shape V ! 0))
      \<and> loops \<noteq> []
      \<and> (\<forall>loop\<in>set loops. 3 \<le> length loop
            \<and> (\<forall>vid\<in>set loop. 0 \<le> vid \<and> vid < int (shape V ! 0)))
      \<and> (case mk of None \<Rightarrow> True | Some a \<Rightarrow> ndim a = 1 \<and> shape a ! 0 = shape F ! 0))"

text \<open>
  What each validation error says about the input; a row or polygon index it carries is
  the index of an offending row or polygon.
\<close>

fun error_describes ::
  "'r ndarray \<Rightarrow> int ndarray \<Rightarrow> int ndarray option \<Rightarrow> int list list \<Rightarrow> error \<Rightarrow> bool" where
  "error_describes V F mk loops VerticesShape = (ndim V \<noteq> 2 \<or> shape V ! 1 \<noteq> 3)"
| "error_describes V F mk loops MeshFacetsShape = (ndim F \<noteq> 2 \<or> shape F ! 1 \<noteq> 3)"
| "error_describes V F mk loops NoBoundaryFacets = (loops = [])"
| "error_describes V F mk loops MarkersNot1D = (case mk of None \<Rightarrow> False | Some a \<Rightarrow> ndim a \<noteq> 1)"
| "error_describes V F mk loops MarkersLength =
     (case mk of None \<Rightarrow> False | Some a \<Rightarrow> shape a ! 0 \<noteq> shape F ! 0)"
| "error_describes V F mk loops VerticesEmpty = (shape V ! 0 = 0)"
| "error_describes V F mk loops (MeshFacetIndex i) =
     (i < shape F ! 0
      \<and> (\<exists>k\<in>set [0..<3]. at2 F i k < 0 \<or> int (shape V ! 0) \<le> at2 F i k))"
| "error_describes V F mk loops (BoundaryFacetShort bi) =
     (bi < length loops \<and> length (loops ! bi) < 3)"
| "error_describes V F mk loops (BoundaryFacetIndex bi) =
     (bi < length loops
      \<and> (\<exists>vid\<in>set (loops ! bi). vid < 0 \<or> int (shape V ! 0) \<le> vid))"
| "error_describes V F mk loops e = False"


text \<open>
  The extents for which the element count of the point buffer and the facet count are
  exact in a C \<^verbatim>\<open>int\<close>.
\<close>

definition extents_fit :: "'r ndarray \<Rightarrow> int ndarray \<Rightarrow> int list list \<Rightarrow> bool" where
  "extents_fit V F loops =
     (3 * int (shape V ! 0) \<le> INT_MAX \<and> int (shape F ! 0) + int (length loops) \<le> INT_MAX)"


text \<open>
  The combined facet marker list as the data model describes it: mesh facets first
  (\<open>raw \<ge> 0\<close> to \<open>raw + 1\<close>, negative or absent to \<open>-1\<close>), then loop \<open>i\<close> as
  \<open>-(i + 2)\<close>, in unbounded integers.
\<close>

definition expected_mesh_markers :: "int list option \<Rightarrow> nat \<Rightarrow> int list" where
  "expected_mesh_markers raw M =
     map (\<lambda>i. case raw of None \<Rightarrow> - 1 | Some ms \<Rightarrow> if ms ! i < 0 then - 1 else ms ! i + 1) [0..<M]"

definition expected_loop_markers :: "nat \<Rightarrow> int list" where
  "expected_loop_markers B = map (\<lambda>i. - (int i + 2)) [0..<B]"


definition expected_markers :: "int list option \<Rightarrow> nat \<Rightarrow> nat \<Rightarrow> int list" where
  "expected_markers raw M B = expected_mesh_markers raw M @ expected_loop_markers B"

text \<open>
  The bytes of an accepted configuration payload, the C string a buffer holds (its bytes
  before the first NUL), and the flags that boundary face derivation adds: \<open>n\<close> and
  \<open>f\<close>, each when it does not occur in the C string of the payload.
\<close>

definition payload_bytes :: "py_switches \<Rightarrow> string option" where
  "payload_bytes sw =
     (case sw of
        PyStr s \<Rightarrow> Some s
      | PyBytes s \<Rightarrow> Some s
      | PyArray a \<Rightarrow> if ndim a = 1 then Some (map (\<lambda>i. at1 a i) [0..<shape a ! 0]) else None
      | PyOther \<Rightarrow> None)"

definition c_string :: "string \<Rightarrow> string" where
  "c_string buf = takeWhile (\<lambda>c. c \<noteq> NUL) buf"

definition missing_flags :: "bool \<Rightarrow> string \<Rightarrow> string" where
  "missing_flags cbf payload =
     (if cbf then
        (if CHR ''n'' \<in> set (c_string payload) then [] else [CHR ''n''])
          @ (if CHR ''f'' \<in> set (c_string payload) then [] else [CHR ''f''])
      else [])"

text \<open>
  Marker reconciliation as a last-wins lookup: the marker of the last output face whose
  sorted vertex triple is the key, and \<open>0\<close> when no output face has that key.
\<close>

definition output_face_key :: "int list \<Rightarrow> nat \<Rightarrow> int list" where
  "output_face_key tfl i = face_key (tfl ! (3 * i + 0)) (tfl ! (3 * i + 1)) (tfl ! (3 * i + 2))"

definition last_wins_marker :: "int list \<Rightarrow> int list \<Rightarrow> nat \<Rightarrow> int list \<Rightarrow> int" where
  "last_wins_marker tfl tml n key =
     (case find (\<lambda>i. output_face_key tfl i = key) (rev [0..<n]) of
        None \<Rightarrow> 0
      | Some i \<Rightarrow> tml ! i)"

text \<open>
  What marshalling with derivation enabled makes of a generator output: every field
  converted from its buffer under its presence test, the boundary faces those the extractor
  derives from the marshalled tetrahedra and adjacency, and their markers reconciled
  against the output faces.
\<close>

definition rich_outputs :: "'r tetgenio \<Rightarrow> 'r TetwrapIO \<Rightarrow> bool" where
  "rich_outputs out io =
     (points io = to_array (pointlist out) (numberofpoints out) 3
      \<and> tets io = to_array (tetrahedronlist out) (numberoftetrahedra out) (numberofcorners out)
      \<and> corners io = numberofcorners out
      \<and> tri_faces io
          = (if 0 < numberoftrifaces out \<and> trifacelist out \<noteq> None
             then Some (to_array (trifacelist out) (numberoftrifaces out) 3) else None)
      \<and> tri_markers io
          = (if 0 < numberoftrifaces out \<and> trifacelist out \<noteq> None \<and> trifacemarkerlist out \<noteq> None
             then Some (to_vector (trifacemarkerlist out) (numberoftrifaces out)) else None)
      \<and> edges io
          = (if 0 < numberofedges out \<and> edgelist out \<noteq> None
             then Some (to_array (edgelist out) (numberofedges out) 2) else None)
      \<and> edge_markers io
          = (if 0 < numberofedges out \<and> edgelist out \<noteq> None \<and> edgemarkerlist out \<noteq> None
             then Some (to_vector (edgemarkerlist out) (numberofedges out)) else None)
      \<and> neighbors io
          = (if neighborlist out \<noteq> None
             then Some (to_array (neighborlist out) (numberoftetrahedra out) 4) else None)
      \<and> point_markers io
          = (if pointmarkerlist out \<noteq> None
             then Some (to_vector (pointmarkerlist out) (numberofpoints out)) else None)
      \<and> tet_attr io
          = (if tetrahedronattributelist out \<noteq> None \<and> 0 < numberoftetrahedronattributes out
             then Some (to_array (tetrahedronattributelist out) (numberoftetrahedra out)
                          (numberoftetrahedronattributes out))
             else None)
      \<and> tet_vol io
          = (if tetrahedronvolumelist out \<noteq> None
             then Some (to_vector (tetrahedronvolumelist out) (numberoftetrahedra out)) else None)
      \<and> (case boundary_tri_faces io of
            None \<Rightarrow> neighborlist out = None \<and> boundary_tri_markers io = None
          | Some bf \<Rightarrow>
              neighborlist out \<noteq> None
              \<and> compute_boundary_face_tris
                    (to_array (tetrahedronlist out) (numberoftetrahedra out) (numberofcorners out))
                    (to_array (neighborlist out) (numberoftetrahedra out) 4) = Inr bf
              \<and> boundary_tri_markers io
                  = (if triface_marker_map out \<noteq> []
                     then Some (boundary_markers (triface_marker_map out) bf) else None)))"

section \<open>Concrete inputs\<close>

text \<open>One tetrahedron whose local faces 0 and 2 have no neighbour.\<close>

definition tets_w :: "int ndarray" where
  "tets_w = \<lparr>ndim = 2, shape = [1, 4], data = [10, 11, 12, 13]\<rparr>"

definition nbrs_w :: "int ndarray" where
  "nbrs_w = \<lparr>ndim = 2, shape = [1, 4], data = [- 1, 0, - 1, 5]\<rparr>"

text \<open>
  Four vertices, two mesh facets and two boundary loops; \<open>F_bad\<close> has the index 4, one
  past the last vertex, in row 1. \<open>markers_max\<close> labels facet 1 with the largest
  \<^verbatim>\<open>int\<close>. \<open>gen_other\<close> is a generator that throws.
\<close>

definition V_w :: "real ndarray" where
  "V_w = \<lparr>ndim = 2, shape = [4, 3], data = [0, 0, 0, 1, 0, 0, 0, 1, 0, 0, 0, 1]\<rparr>"

definition F_w :: "int ndarray" where
  "F_w = \<lparr>ndim = 2, shape = [2, 3], data = [0, 1, 2, 0, 1, 3]\<rparr>"

definition F_bad :: "int ndarray" where
  "F_bad = \<lparr>ndim = 2, shape = [2, 3], data = [0, 1, 2, 0, 1, 4]\<rparr>"

definition loops_w :: "int list list" where
  "loops_w = [[0, 2, 3], [1, 2, 3]]"

definition markers_w :: "int ndarray" where
  "markers_w = \<lparr>ndim = 1, shape = [2], data = [- 5, 7]\<rparr>"

definition markers_max :: "int ndarray" where
  "markers_max = \<lparr>ndim = 1, shape = [2], data = [0, 2147483647]\<rparr>"

definition gen_other :: "real generator" where
  "gen_other sw inp = ThrowsOther"

text \<open>A payload with a NUL before its flags.\<close>

definition payload_nul :: string where
  "payload_nul = [CHR ''p'', NUL, CHR ''n'', CHR ''f'']"

text \<open>A payload cut short by a NUL, with no flag before it.\<close>

definition payload_cut :: string where
  "payload_cut = [CHR ''p'', NUL]"

text \<open>A payload given as an array of bytes.\<close>

definition switches_arr :: "char ndarray" where
  "switches_arr = \<lparr>ndim = 1, shape = [2], data = ''pn''\<rparr>"

text \<open>
  A generator output: one tetrahedron without neighbours and four output faces, of
  which the last repeats the first with another winding and another marker, and none is
  the face \<open>(0,1,2)\<close>. \<open>res_w\<close> is the result marshalled from it and \<open>bf_w\<close> its
  boundary faces; \<open>bf_sorted\<close> has the same triangles with sorted vertices.
  \<open>out_nomk\<close> lacks the face markers, \<open>out_nonb\<close> the adjacency; \<open>out_nb\<close> has an
  adjacency buffer and no tetrahedron; \<open>out_ho\<close> has ten corners per tetrahedron.
\<close>

definition out_w :: "real tetgenio" where
  "out_w = tetgenio_init
     \<lparr>numberofpoints := 4,
      pointlist := Some [0, 0, 0, 1, 0, 0, 0, 1, 0, 0, 0, 1],
      numberoftetrahedra := 1,
      numberofcorners := 4,
      tetrahedronlist := Some [0, 1, 2, 3],
      neighborlist := Some [- 1, - 1, - 1, - 1],
      numberoftrifaces := 4,
      trifacelist := Some [1, 2, 3, 0, 2, 3, 0, 1, 3, 3, 2, 1],
      trifacemarkerlist := Some [- 3, - 2, 8, 9]\<rparr>"

definition gen_w :: "real generator" where
  "gen_w sw inp = Returns out_w"

definition out_nb :: "real tetgenio" where
  "out_nb = tetgenio_init\<lparr>neighborlist := Some []\<rparr>"

definition out_ho :: "real tetgenio" where
  "out_ho = out_w\<lparr>numberofcorners := 10, tetrahedronlist := Some [0, 1, 2, 3, 4, 5, 6, 7, 8, 9]\<rparr>"

definition gen_ho :: "real generator" where
  "gen_ho sw inp = Returns out_ho"

definition bf_w :: "int ndarray" where
  "bf_w = \<lparr>ndim = 2, shape = [4, 3], data = [1, 2, 3, 0, 3, 2, 0, 1, 3, 0, 2, 1]\<rparr>"

definition bf_sorted :: "int ndarray" where
  "bf_sorted = \<lparr>ndim = 2, shape = [4, 3], data = [1, 2, 3, 0, 2, 3, 0, 1, 3, 0, 1, 2]\<rparr>"

definition res_w :: "real TetwrapIO" where
  "res_w =
     \<lparr>points = \<lparr>ndim = 2, shape = [4, 3], data = [0, 0, 0, 1, 0, 0, 0, 1, 0, 0, 0, 1]\<rparr>,
      tets = \<lparr>ndim = 2, shape = [1, 4], data = [0, 1, 2, 3]\<rparr>,
      tri_faces = Some \<lparr>ndim = 2, shape = [4, 3], data = [1, 2, 3, 0, 2, 3, 0, 1, 3, 3, 2, 1]\<rparr>,
      tri_markers = Some \<lparr>ndim = 1, shape = [4], data = [- 3, - 2, 8, 9]\<rparr>,
      boundary_tri_faces = Some bf_w,
      boundary_tri_markers = Some \<lparr>ndim = 1, shape = [4], data = [9, - 2, 8, 0]\<rparr>,
      edges = None, edge_markers = None,
      neighbors = Some \<lparr>ndim = 2, shape = [1, 4], data = [- 1, - 1, - 1, - 1]\<rparr>,
      point_markers = None, tet_attr = None, tet_vol = None,
      corners = 4, switches = ''pq''\<rparr>"

definition out_nomk :: "real tetgenio" where
  "out_nomk = out_w\<lparr>trifacemarkerlist := None\<rparr>"

definition out_nonb :: "real tetgenio" where
  "out_nonb = out_w\<lparr>neighborlist := None\<rparr>"

section \<open>Properties\<close>

subsection \<open>Boundary face extractor\<close>

lemma fold_nested_product:
  "fold (\<lambda>i s. fold (\<lambda>j s. f i j s) ys s) xs s0 = fold (\<lambda>(i, j) s. f i j s) (List.product xs ys) s0"
proof (induction xs arbitrary: s0)
  case Nil
  then show ?case by simp
next
  case (Cons x xs)
  have "fold (\<lambda>(i, j). f i j) (map (Pair x) ys) s = fold (f x) ys s" for s
    by (induction ys arbitrary: s) simp_all
  with Cons show ?case by simp
qed

lemma count_fold:
  "fold (\<lambda>(i, lf) B. count_step nbrs i lf B) ps B0
     = B0 + length (filter (\<lambda>(i, lf). at2 nbrs i lf < 0) ps)"
  by (induction ps arbitrary: B0) (auto simp: count_step_def)

lemma count_boundary_eq: "count_boundary nbrs T = length (boundary_pairs nbrs T)"
  unfolding count_boundary_def boundary_pairs_def
  by (simp add: fold_nested_product count_fold)

lemma write3:
  assumes "b * 3 + 3 \<le> length F"
  shows "F[b * 3 + 0 := x, b * 3 + 1 := y, b * 3 + 2 := z]
           = take (b * 3) F @ [x, y, z] @ drop (b * 3 + 3) F"
  using assms
  by (auto simp: list_eq_iff_nth_eq nth_append nth_list_update min_def)

lemma fill_fold:
  assumes "(b + length (filter (\<lambda>(i, lf). at2 nbrs i lf < 0) ps)) * 3 \<le> length F"
  shows "fold (\<lambda>(i, lf) s. fill_step tts nbrs i lf s) ps (F, b)
     = (take (b * 3) F
          @ concat (map (boundary_tri tts) (filter (\<lambda>(i, lf). at2 nbrs i lf < 0) ps))
          @ drop ((b + length (filter (\<lambda>(i, lf). at2 nbrs i lf < 0) ps)) * 3) F,
        b + length (filter (\<lambda>(i, lf). at2 nbrs i lf < 0) ps))"
  using assms
proof (induction ps arbitrary: F b)
  case Nil
  then show ?case by simp
next
  case (Cons p ps)
  obtain i lf where p: "p = (i, lf)" by (cases p)
  show ?case
  proof (cases "at2 nbrs i lf < 0")
    case False
    with Cons p show ?thesis by (simp add: fill_step_def)
  next
    case True
    let ?n = "length (filter (\<lambda>(i, lf). at2 nbrs i lf < 0) ps)"
    let ?x = "at2 tts i (faces_of_tet lf ! 0)"
    let ?y = "at2 tts i (faces_of_tet lf ! 1)"
    let ?z = "at2 tts i (faces_of_tet lf ! 2)"
    let ?F = "take (b * 3) F @ [?x, ?y, ?z] @ drop (b * 3 + 3) F"
    from Cons.prems p True have len: "(b + 1 + ?n) * 3 \<le> length F" by simp
    then have b3: "b * 3 + 3 \<le> length F" by simp
    have step: "fill_step tts nbrs i lf (F, b) = (?F, b + 1)"
      using True write3 [OF b3] by (simp add: fill_step_def Let_def)
    have lenF: "length ?F = length F" using b3 by simp
    have tk: "take ((b + 1) * 3) ?F = take (b * 3) F @ [?x, ?y, ?z]"
      using b3 by simp
    have dr: "drop ((b + 1 + ?n) * 3) ?F = drop ((b + 1 + ?n) * 3) F"
    proof -
      let ?A = "take (b * 3) F @ [?x, ?y, ?z]"
      have lA: "length ?A = b * 3 + 3" using b3 by simp
      have "drop (length ?A + ?n * 3) (?A @ drop (b * 3 + 3) F) = drop (?n * 3) (drop (b * 3 + 3) F)"
        by (simp only: drop_append) simp
      also have "\<dots> = drop (?n * 3 + (b * 3 + 3)) F" by (simp only: drop_drop)
      finally show ?thesis using lA by (simp add: algebra_simps)
    qed
    from len lenF have "(b + 1 + ?n) * 3 \<le> length ?F" by simp
    from Cons.IH [OF this] show ?thesis
      using p True step tk dr by (simp add: boundary_tri_def)
  qed
qed

lemma fill_boundary_any:
  "length F0 = length (boundary_pairs nbrs T) * 3
     \<Longrightarrow> fst (fill_boundary tts nbrs T F0)
           = concat (map (boundary_tri tts) (boundary_pairs nbrs T))"
  unfolding fill_boundary_def boundary_pairs_def
  by (simp only: fold_nested_product) (simp add: fill_fold)

lemma fill_boundary_eq:
  "fst (fill_boundary tts nbrs T (replicate (length (boundary_pairs nbrs T) * 3) 0))
     = concat (map (boundary_tri tts) (boundary_pairs nbrs T))"
  by (rule fill_boundary_any) simp


lemma sorted_wrt_product:
  assumes "sorted_wrt (<) xs" "sorted_wrt (<) ys"
  shows "sorted_wrt pair_less (List.product xs ys)"
  using assms
proof (induction xs)
  case Nil
  then show ?case by simp
next
  case (Cons x xs)
  have "sorted_wrt pair_less (map (Pair x) ys)"
    using Cons.prems(2) by (simp add: sorted_wrt_map pair_less_def)
  moreover have "\<forall>p\<in>set (map (Pair x) ys). \<forall>q\<in>set (List.product xs ys). pair_less p q"
    using Cons.prems(1) by (auto simp: pair_less_def)
  ultimately show ?case using Cons by (simp add: sorted_wrt_append)
qed

lemma boundary_pairs_sorted: "sorted_wrt pair_less (boundary_pairs nbrs T)"
  unfolding boundary_pairs_def
  by (rule sorted_wrt_filter) (simp add: sorted_wrt_product)

lemma boundary_pairs_set:
  "set (boundary_pairs nbrs T) = {(i, lf). i < T \<and> lf < 4 \<and> at2 nbrs i lf < 0}"
  by (auto simp: boundary_pairs_def)

lemma faces_of_tet_table:
  "faces_of_tet 0 = [1, 2, 3] \<and> faces_of_tet 1 = [0, 3, 2] \<and> faces_of_tet 2 = [0, 1, 3]
     \<and> faces_of_tet 3 = [0, 2, 1]"
  by (simp add: faces_of_tet_def)

lemma concat_triples_nth:
  assumes "\<And>p. length (f p) = 3" "b < length ps" "k < 3"
  shows "concat (map f ps) ! (b * 3 + k) = f (ps ! b) ! k"
  using assms(2)
proof (induction ps arbitrary: b)
  case Nil
  then show ?case by simp
next
  case (Cons p ps)
  show ?case
  proof (cases b)
    case 0
    then show ?thesis using assms(1,3) by (simp add: nth_append)
  next
    case (Suc b')
    with Cons.prems have "b' < length ps" by simp
    from Cons.IH [OF this] show ?thesis using Suc assms(1) [of p] by (simp add: nth_append)
  qed
qed

lemma compute_boundary_face_tris_eq:
  assumes "ndim tts = 2" "shape tts = [T, 4]" "ndim nbrs = 2" "shape nbrs = [T, 4]"
  shows "compute_boundary_face_tris tts nbrs
           = Inr \<lparr>ndim = 2, shape = [length (boundary_pairs nbrs T), 3],
                  data = concat (map (boundary_tri tts) (boundary_pairs nbrs T))\<rparr>"
  using assms
  by (simp add: compute_boundary_face_tris_def Let_def count_boundary_eq fill_boundary_eq)

text \<open>
  C2. For a tetrahedra array and a neighbours array of shape \<open>(T,4)\<close>, the extractor
  returns an array of shape \<open>(n,3)\<close> where \<open>n\<close> is the number of pairs \<open>(i, lf)\<close>,
  \<open>i < T\<close>, \<open>lf < 4\<close>, whose neighbour entry is negative. The triangles are those of
  the pairs in ascending order of \<open>(i, lf)\<close>, and the triangle of a pair is
  \<open>(tets(i,p0), tets(i,p1), tets(i,p2))\<close> for the row \<open>(p0,p1,p2)\<close> of the local
  face pattern: \<open>(1,2,3)\<close>, \<open>(0,3,2)\<close>, \<open>(0,1,3)\<close>, \<open>(0,2,1)\<close>. The second pass
  overwrites the whole array of the size the first pass counted, whatever it held.
\<close>

theorem boundary_face_extractor:
  assumes "ndim tts = 2" "shape tts = [T, 4]" "ndim nbrs = 2" "shape nbrs = [T, 4]"
  shows "\<exists>faces. compute_boundary_face_tris tts nbrs = Inr faces
           \<and> ndim faces = 2
           \<and> shape faces = [length (boundary_pairs nbrs T), 3]
           \<and> data faces = concat (map (boundary_tri tts) (boundary_pairs nbrs T))
           \<and> (\<forall>F0. length F0 = length (boundary_pairs nbrs T) * 3
                 \<longrightarrow> fst (fill_boundary tts nbrs T F0) = data faces)
           \<and> (\<forall>b<length (boundary_pairs nbrs T). \<forall>k<3.
                 at2 faces b k = boundary_tri tts (boundary_pairs nbrs T ! b) ! k)
           \<and> sorted_wrt pair_less (boundary_pairs nbrs T)
           \<and> set (boundary_pairs nbrs T) = {(i, lf). i < T \<and> lf < 4 \<and> at2 nbrs i lf < 0}
           \<and> faces_of_tet 0 = [1, 2, 3] \<and> faces_of_tet 1 = [0, 3, 2]
           \<and> faces_of_tet 2 = [0, 1, 3] \<and> faces_of_tet 3 = [0, 2, 1]"
proof -
  let ?ps = "boundary_pairs nbrs T"
  let ?faces = "\<lparr>ndim = 2, shape = [length ?ps, 3], data = concat (map (boundary_tri tts) ?ps)\<rparr>"
  have res: "compute_boundary_face_tris tts nbrs = Inr ?faces"
    using assms by (rule compute_boundary_face_tris_eq)
  have nth: "\<forall>b<length ?ps. \<forall>k<3. at2 ?faces b k = boundary_tri tts (?ps ! b) ! k"
  proof (intro allI impI)
    fix b k :: nat assume "b < length ?ps" "k < 3"
    moreover have "\<And>p. length (boundary_tri tts p) = 3"
      by (simp add: boundary_tri_def split: prod.splits)
    ultimately show "at2 ?faces b k = boundary_tri tts (?ps ! b) ! k"
      by (simp add: at2_def concat_triples_nth)
  qed
  have any: "\<forall>F0. length F0 = length ?ps * 3 \<longrightarrow> fst (fill_boundary tts nbrs T F0) = data ?faces"
    by (simp add: fill_boundary_any)
  from res nth any boundary_pairs_sorted [of nbrs T] boundary_pairs_set [of nbrs T]
    faces_of_tet_table
  show ?thesis by simp
qed

lemma boundary_pairs_w: "boundary_pairs nbrs_w 1 = [(0, 0), (0, 2)]"
  by (simp add: boundary_pairs_def nbrs_w_def at2_def upt_rec)

theorem boundary_face_extractor_witness:
  "ndim tets_w = 2 \<and> shape tets_w = [1, 4] \<and> ndim nbrs_w = 2 \<and> shape nbrs_w = [1, 4]
     \<and> compute_boundary_face_tris tets_w nbrs_w
         = Inr \<lparr>ndim = 2, shape = [2, 3], data = [11, 12, 13, 10, 11, 13]\<rparr>"
proof -
  have h: "ndim tets_w = 2" "shape tets_w = [1, 4]" "ndim nbrs_w = 2" "shape nbrs_w = [1, 4]"
    by (simp_all add: tets_w_def nbrs_w_def)
  from boundary_face_extractor [OF h] obtain faces where
    f: "compute_boundary_face_tris tets_w nbrs_w = Inr faces" "ndim faces = 2"
       "shape faces = [length (boundary_pairs nbrs_w 1), 3]"
       "data faces = concat (map (boundary_tri tets_w) (boundary_pairs nbrs_w 1))"
    by blast
  have "data faces = [11, 12, 13, 10, 11, 13]"
    unfolding f(4) boundary_pairs_w
    by (simp add: boundary_tri_def faces_of_tet_def tets_w_def at2_def)
  moreover have "shape faces = [2, 3]"
    unfolding f(3) boundary_pairs_w by simp
  ultimately show ?thesis using f(1,2) h by (cases faces) simp
qed

subsection \<open>Input validation\<close>

lemma wrap32_id: "- (2 ^ 31) \<le> x \<Longrightarrow> x < 2 ^ 31 \<Longrightarrow> wrap32 x = x"
  by (simp add: wrap32_def)

lemma static_cast_int_fits: "fits_int n \<Longrightarrow> static_cast_int n = int n"
  by (simp add: static_cast_int_def fits_int_def INT_MAX_def wrap32_id)

lemma check_mesh_facets_None:
  "check_mesh_facets F N rows = None \<longleftrightarrow> (\<forall>i\<in>set rows. \<not> mesh_facet_row_bad F N i)"
  by (induction rows) auto

lemma check_mesh_facets_Some:
  "check_mesh_facets F N rows = Some e
     \<Longrightarrow> \<exists>i\<in>set rows. e = MeshFacetIndex i \<and> mesh_facet_row_bad F N i"
  by (induction rows) (auto split: if_splits)

lemma check_boundary_facets_None:
  "check_boundary_facets polys N bi = None
     \<longleftrightarrow> (\<forall>poly\<in>set polys. 3 \<le> length poly \<and> (\<forall>vid\<in>set poly. 0 \<le> vid \<and> vid < N))"
proof (induction polys arbitrary: bi)
  case Nil
  then show ?case by simp
next
  case (Cons poly polys)
  have "check_boundary_facets (poly # polys) N bi = None
      \<longleftrightarrow> (3 \<le> length poly \<and> (\<forall>vid\<in>set poly. 0 \<le> vid \<and> vid < N))
          \<and> check_boundary_facets polys N (bi + 1) = None"
    by (auto simp: not_less not_le)
  then show ?case by (simp add: Cons.IH)
qed

lemma check_boundary_facets_Some:
  "check_boundary_facets polys N bi = Some e
     \<Longrightarrow> \<exists>j<length polys.
           (e = BoundaryFacetShort (bi + j) \<and> length (polys ! j) < 3)
         \<or> (e = BoundaryFacetIndex (bi + j) \<and> (\<exists>vid\<in>set (polys ! j). vid < 0 \<or> N \<le> vid))"
proof (induction polys arbitrary: bi)
  case Nil
  then show ?case by simp
next
  case (Cons poly polys)
  show ?case
  proof (cases "length poly < 3 \<or> (\<exists>vid\<in>set poly. vid < 0 \<or> N \<le> vid)")
    case True
    with Cons.prems show ?thesis by (intro exI [of _ 0]) (auto split: if_splits)
  next
    case False
    with Cons.prems have "check_boundary_facets polys N (bi + 1) = Some e" by auto
    from Cons.IH [OF this] obtain j where "j < length polys"
      "(e = BoundaryFacetShort (bi + 1 + j) \<and> length (polys ! j) < 3)
         \<or> (e = BoundaryFacetIndex (bi + 1 + j) \<and> (\<exists>vid\<in>set (polys ! j). vid < 0 \<or> N \<le> vid))"
      by blast
    then show ?thesis by (intro exI [of _ "Suc j"]) simp
  qed
qed

lemma validate_valid:
  assumes "fits_int (shape V ! 0)" "fits_int (shape F ! 0)" "valid_input V F mk loops"
  shows "validate V F mk loops
           = Inr (int (shape V ! 0), int (shape F ! 0), static_cast_int (length loops),
                  map_option data mk)"
proof -
  have rows: "check_mesh_facets F (int (shape V ! 0)) [0..<shape F ! 0] = None"
    using assms(3) by (fastforce simp: check_mesh_facets_None mesh_facet_row_bad_def valid_input_def)
  have polys: "check_boundary_facets loops (int (shape V ! 0)) 0 = None"
    using assms(3) by (simp add: check_boundary_facets_None valid_input_def)
  have mk: "check_markers mk (int (shape F ! 0)) = Inr (map_option data mk)"
    using assms(3) by (auto simp: check_markers_def valid_input_def split: option.splits)
  have "loops \<noteq> []" using assms(3) by (simp add: valid_input_def)
  then have "\<not> length loops < 1" by (cases loops) simp_all
  then show ?thesis
    using assms rows polys mk
    by (simp add: validate_def static_cast_int_fits valid_input_def Let_def)
qed

lemma validate_invalid:
  assumes "fits_int (shape V ! 0)" "fits_int (shape F ! 0)" "\<not> valid_input V F mk loops"
  shows "\<exists>e. validate V F mk loops = Inl e \<and> error_describes V F mk loops e"
proof -
  let ?N = "int (shape V ! 0)" and ?M = "int (shape F ! 0)"
  consider (vs) "ndim V \<noteq> 2 \<or> shape V ! 1 \<noteq> 3"
    | (fs) "\<not> (ndim V \<noteq> 2 \<or> shape V ! 1 \<noteq> 3)" "ndim F \<noteq> 2 \<or> shape F ! 1 \<noteq> 3"
    | (nb) "\<not> (ndim V \<noteq> 2 \<or> shape V ! 1 \<noteq> 3)" "\<not> (ndim F \<noteq> 2 \<or> shape F ! 1 \<noteq> 3)" "loops = []"
    | (rest) "\<not> (ndim V \<noteq> 2 \<or> shape V ! 1 \<noteq> 3)" "\<not> (ndim F \<noteq> 2 \<or> shape F ! 1 \<noteq> 3)" "loops \<noteq> []"
    by blast
  then show ?thesis
  proof cases
    case vs
    then show ?thesis by (auto simp: validate_def)
  next
    case fs
    then show ?thesis by (auto simp: validate_def)
  next
    case nb
    then show ?thesis by (auto simp: validate_def)
  next
    case rest
    from rest(3) have nl: "\<not> length loops < 1" by (cases loops) simp_all
    have v: "validate V F mk loops =
        (case check_markers mk ?M of
           Inl e \<Rightarrow> Inl e
         | Inr p \<Rightarrow>
             if ?N \<le> 0 then Inl VerticesEmpty
             else (case check_mesh_facets F ?N [0..<shape F ! 0] of
                     Some e \<Rightarrow> Inl e
                   | None \<Rightarrow> (case check_boundary_facets loops ?N 0 of
                                Some e \<Rightarrow> Inl e
                              | None \<Rightarrow> Inr (?N, ?M, static_cast_int (length loops), p))))"
      using rest nl assms(1,2)
      by (simp add: validate_def static_cast_int_fits Let_def split: sum.splits option.splits)
    show ?thesis
    proof (cases "check_markers mk ?M")
      case (Inl e)
      then have "error_describes V F mk loops e"
        by (auto simp: check_markers_def split: option.splits if_splits)
      with Inl v show ?thesis by simp
    next
      case (Inr p)
      then have mkok: "case mk of None \<Rightarrow> True | Some a \<Rightarrow> ndim a = 1 \<and> shape a ! 0 = shape F ! 0"
        by (auto simp: check_markers_def split: option.splits if_splits)
      show ?thesis
      proof (cases "?N \<le> 0")
        case True
        with Inr v show ?thesis by simp
      next
        case False
        show ?thesis
        proof (cases "check_mesh_facets F ?N [0..<shape F ! 0]")
          case (Some e)
          from check_mesh_facets_Some [OF this] have "error_describes V F mk loops e"
            by (fastforce simp: mesh_facet_row_bad_def)
          with Some Inr False v show ?thesis by simp
        next
          case None
          show ?thesis
          proof (cases "check_boundary_facets loops ?N 0")
            case (Some e)
            from check_boundary_facets_Some [OF this] have "error_describes V F mk loops e"
              by auto
            with Some None Inr False v show ?thesis by simp
          next
            case None2: None
            from None have "\<forall>i\<in>set [0..<shape F ! 0]. \<not> mesh_facet_row_bad F ?N i"
              by (simp add: check_mesh_facets_None)
            moreover from None2 have "\<forall>poly\<in>set loops. 3 \<le> length poly
                \<and> (\<forall>vid\<in>set poly. 0 \<le> vid \<and> vid < ?N)"
              by (simp add: check_boundary_facets_None)
            ultimately have "valid_input V F mk loops"
              using rest False mkok
              by (auto simp: valid_input_def mesh_facet_row_bad_def not_le not_less)
            with assms(3) show ?thesis by simp
          qed
        qed
      qed
    qed
  qed
qed


lemma upt2: "[0..<2] = [0, 1]" by (simp add: upt_rec)
lemma upt3: "[0..<3] = [0, 1, 2]" by (simp add: upt_rec)

lemma valid_w: "valid_input V_w F_w (Some markers_w) loops_w"
  by (simp add: valid_input_def V_w_def F_w_def markers_w_def loops_w_def at2_def upt2 upt3)

lemma valid_max: "valid_input V_w F_w (Some markers_max) loops_w"
  by (simp add: valid_input_def V_w_def F_w_def markers_max_def loops_w_def at2_def upt2 upt3)

lemma invalid_bad: "\<not> valid_input V_w F_bad None loops_w"
  by (simp add: valid_input_def V_w_def F_bad_def loops_w_def at2_def upt2 upt3)

lemma extents_w: "extents_fit V_w F_w loops_w"
  by (simp add: extents_fit_def V_w_def F_w_def loops_w_def INT_MAX_def)

text \<open>
  C6. An input that violates the contract (vertices or mesh facets of wrong rank or
  width, no vertex, a mesh facet or loop index outside \<open>[0, N)\<close>, a loop with fewer
  than three vertices, no loop, a marker array of wrong rank or length) makes the call
  raise an error that describes a violation the input has, with the index of an offending
  row or polygon where there is one, and the generator is not called. The two extents
  are taken to fit a C \<^verbatim>\<open>int\<close>.
\<close>

theorem input_validation:
  assumes "fits_int (shape V ! 0)" "fits_int (shape F ! 0)"
    and "\<not> valid_input V F mk loops"
  shows "\<exists>e. tetrahedralize_core gen V F mk loops sw cbf = ([], Inl e)
           \<and> error_describes V F mk loops e"
proof -
  from validate_invalid [OF assms] obtain e where
    "validate V F mk loops = Inl e" "error_describes V F mk loops e" by blast
  then show ?thesis
    by (auto simp: tetrahedralize_core_def assemble_plc_def)
qed

lemma core_bad:
  "tetrahedralize_core gen_other V_w F_bad None loops_w (PyStr ''pq'') True = ([], Inl (MeshFacetIndex 1))"
  by (simp add: tetrahedralize_core_def assemble_plc_def validate_def V_w_def F_bad_def loops_w_def
     static_cast_int_def wrap32_def check_markers_def upt2 upt3 mesh_facet_row_bad_def at2_def)

theorem input_validation_witness:
  "fits_int (shape V_w ! 0) \<and> fits_int (shape F_bad ! 0) \<and> \<not> valid_input V_w F_bad None loops_w
     \<and> tetrahedralize_core gen_other V_w F_bad None loops_w (PyStr ''pq'') True
         = ([], Inl (MeshFacetIndex 1))
     \<and> error_describes V_w F_bad None loops_w (MeshFacetIndex 1)
     \<and> what (MeshFacetIndex 1) = ''mesh_facets index out of range at row 1''"
proof -
  have f: "fits_int (shape V_w ! 0)" "fits_int (shape F_bad ! 0)"
    by (simp_all add: fits_int_def V_w_def F_bad_def INT_MAX_def)
  from input_validation [OF f invalid_bad, of gen_other "PyStr ''pq''" True] obtain e where
    e: "tetrahedralize_core gen_other V_w F_bad None loops_w (PyStr ''pq'') True = ([], Inl e)"
      "error_describes V_w F_bad None loops_w e"
    by blast
  from e(1) have "e = MeshFacetIndex 1" by (simp add: core_bad)
  moreover have "what (MeshFacetIndex 1) = ''mesh_facets index out of range at row 1''"
    by (simp add: digit_char_def)
  ultimately show ?thesis using f invalid_bad e by simp
qed

subsection \<open>Facet marker encoding\<close>

lemma fold_update_range:
  "off + n \<le> length xs
     \<Longrightarrow> fold (\<lambda>i ys. ys[off + i := f i]) [0..<n] xs
           = take off xs @ map f [0..<n] @ drop (off + n) xs"
proof (induction n)
  case 0
  then show ?case by simp
next
  case (Suc n)
  then have IH: "fold (\<lambda>i ys. ys[off + i := f i]) [0..<n] xs
      = take off xs @ map f [0..<n] @ drop (off + n) xs" by simp
  from Suc.prems have lt: "off + n < length xs" by simp
  have C: "drop (off + n) xs = xs ! (off + n) # drop (off + Suc n) xs"
    using lt by (simp add: Cons_nth_drop_Suc)
  have "(take off xs @ map f [0..<n] @ drop (off + n) xs)[off + n := f n]
      = take off xs @ map f [0..<n] @ (drop (off + n) xs)[0 := f n]"
    using lt by (simp add: list_update_append)
  also have "\<dots> = take off xs @ map f [0..<n] @ [f n] @ drop (off + Suc n) xs"
    by (simp only: C) simp
  finally show ?case using IH by simp
qed

lemma fold_update_prefix:
  "n \<le> length xs \<Longrightarrow> fold (\<lambda>i ys. ys[i := f i]) [0..<n] xs = map f [0..<n] @ drop n xs"
  using fold_update_range [of 0 n xs f] by simp

lemma fold_pair_split:
  "fold (\<lambda>i s. case s of (a, b) \<Rightarrow> (g i a, h i b)) js (a0, b0) = (fold g js a0, fold h js b0)"
  by (induction js arbitrary: a0 b0) simp_all

lemma wrap32_neg_wrap32: "0 \<le> x \<Longrightarrow> x \<le> 2 ^ 31 \<Longrightarrow> wrap32 (- wrap32 x) = - x"
proof (cases "x = 2 ^ 31")
  case True
  then show ?thesis by (simp add: wrap32_def)
next
  case False
  assume "0 \<le> x" "x \<le> 2 ^ 31"
  with False have "wrap32 x = x" "wrap32 (- x) = - x" by (simp_all add: wrap32_id)
  then show ?thesis by simp
qed

lemma loop_marker_eq: "int bi < INT_MAX \<Longrightarrow> loop_marker bi = - (int bi + 2)"
  by (simp add: loop_marker_def INT_MAX_def wrap32_neg_wrap32)

lemma marker_value_eq:
  assumes "case ptr of None \<Rightarrow> True | Some ms \<Rightarrow> ms ! fi < INT_MAX"
  shows "marker_value ptr fi
           = (case ptr of None \<Rightarrow> - 1 | Some ms \<Rightarrow> if ms ! fi < 0 then - 1 else ms ! fi + 1)"
  using assms
  by (auto simp: marker_value_def Let_def INT_MAX_def wrap32_id split: option.splits)

lemma assemble_lists:
  assumes "3 * int N \<le> INT_MAX" "int M + int B \<le> INT_MAX"
  shows "\<exists>inp. assemble V F ptr loops (int N) (int M) (int B) = Inr inp
           \<and> numberoffacets inp = int M + int B
           \<and> facetmarkerlist inp = Some (map (marker_value ptr) [0..<M] @ map loop_marker [0..<B])
           \<and> facetlist inp
               = Some (map (mesh_facet F) [0..<M] @ map (\<lambda>bi. boundary_facet (loops ! bi)) [0..<B])"
proof -
  have n3: "\<not> wrap32 (int N * 3) < 0"
    using assms(1) by (simp add: INT_MAX_def wrap32_id)
  have T: "wrap32 (int M + int B) = int (M + B)"
    using assms(2) by (simp add: INT_MAX_def wrap32_id)
  have ms: "mesh_step F ptr = (\<lambda>i s. case s of (a, b) \<Rightarrow>
      (a[0 + i := mesh_facet F i], b[0 + i := marker_value ptr i]))"
    by (simp add: mesh_step_def fun_eq_iff)
  have bs: "boundary_step loops (int M) = (\<lambda>i s. case s of (a, b) \<Rightarrow>
      (a[M + i := boundary_facet (loops ! i)], b[M + i := loop_marker i]))"
    by (simp add: boundary_step_def fun_eq_iff nat_add_distrib)
  have s1: "fold (mesh_step F ptr) [0..<M] (replicate (M + B) facet_init, replicate (M + B) 0)
      = (map (mesh_facet F) [0..<M] @ replicate B facet_init,
         map (marker_value ptr) [0..<M] @ replicate B 0)"
    unfolding ms fold_pair_split by (simp add: fold_update_prefix)
  have s2: "fold (boundary_step loops (int M)) [0..<B]
        (map (mesh_facet F) [0..<M] @ replicate B facet_init,
         map (marker_value ptr) [0..<M] @ replicate B 0)
      = (map (mesh_facet F) [0..<M] @ map (\<lambda>bi. boundary_facet (loops ! bi)) [0..<B],
         map (marker_value ptr) [0..<M] @ map loop_marker [0..<B])"
    unfolding bs fold_pair_split by (simp add: fold_update_range)
  have nT: "nat (int M + int B) = M + B" by simp
  show ?thesis
    using n3 T by (simp add: assemble_def Let_def nT s1 s2)
qed

lemma expected_mesh_markers_nth:
  "j < M \<Longrightarrow> expected_mesh_markers raw M ! j = - 1 \<or> 1 \<le> expected_mesh_markers raw M ! j"
  by (cases raw) (simp_all add: expected_mesh_markers_def)

lemma mesh_part_set: "m \<in> set (expected_mesh_markers raw M) \<Longrightarrow> m = - 1 \<or> 1 \<le> m"
proof -
  assume "m \<in> set (expected_mesh_markers raw M)"
  then obtain j where "j < length (expected_mesh_markers raw M)" "m = expected_mesh_markers raw M ! j"
    by (metis in_set_conv_nth)
  then show ?thesis using expected_mesh_markers_nth [of j M raw] by (simp add: expected_mesh_markers_def)
qed

lemma loop_part_set: "m \<in> set (expected_loop_markers B) \<Longrightarrow> m \<le> - 2"
  by (auto simp: expected_loop_markers_def)

lemma filter_mesh_part: "filter (\<lambda>m. m \<le> - 2) (expected_mesh_markers raw M) = []"
proof -
  have "\<forall>m\<in>set (expected_mesh_markers raw M). \<not> m \<le> - 2"
    using mesh_part_set [of _ raw M] by fastforce
  then show ?thesis by (simp only: filter_False)
qed

lemma filter_loop_part: "filter (\<lambda>m. m \<le> - 2) (expected_loop_markers B) = expected_loop_markers B"
proof -
  have "\<forall>m\<in>set (expected_loop_markers B). m \<le> - 2"
    using loop_part_set by blast
  then show ?thesis by (simp only: filter_True)
qed

lemma loop_part_index: "map (\<lambda>m. - m - 2) (expected_loop_markers B) = map int [0..<B]"
  by (simp add: expected_loop_markers_def comp_def)

lemma expected_markers_props:
  fixes raw M B
  defines "ml \<equiv> expected_markers raw M B"
  shows "length ml = M + B"
    and "\<forall>m\<in>set ml. m = - 1 \<or> 1 \<le> m \<or> m \<le> - 2"
    and "\<forall>j<length ml. ml ! j \<le> - 2 \<longleftrightarrow> M \<le> j"
    and "map (\<lambda>m. - m - 2) (filter (\<lambda>m. m \<le> - 2) ml) = map int [0..<B]"
proof -
  have ml: "ml = expected_mesh_markers raw M @ expected_loop_markers B"
    by (simp add: ml_def expected_markers_def)
  have la: "length (expected_mesh_markers raw M) = M" by (simp add: expected_mesh_markers_def)
  have lb: "length (expected_loop_markers B) = B" by (simp add: expected_loop_markers_def)
  show "length ml = M + B" by (simp add: ml la lb)
  show "\<forall>m\<in>set ml. m = - 1 \<or> 1 \<le> m \<or> m \<le> - 2"
  proof
    fix m assume "m \<in> set ml"
    then have "m \<in> set (expected_mesh_markers raw M) \<or> m \<in> set (expected_loop_markers B)" by (simp add: ml)
    then show "m = - 1 \<or> 1 \<le> m \<or> m \<le> - 2"
      using mesh_part_set [of m raw M] loop_part_set [of m B] by blast
  qed
  show "\<forall>j<length ml. ml ! j \<le> - 2 \<longleftrightarrow> M \<le> j"
  proof (intro allI impI)
    fix j assume j: "j < length ml"
    show "ml ! j \<le> - 2 \<longleftrightarrow> M \<le> j"
    proof (cases "j < M")
      case True
      then have "ml ! j = expected_mesh_markers raw M ! j" by (simp add: ml nth_append la)
      with expected_mesh_markers_nth [OF True, of raw] True show ?thesis by auto
    next
      case False
      with j have "j - M < B" by (simp add: ml la lb)
      with False have "ml ! j = - (int (j - M) + 2)"
        by (simp add: ml nth_append la expected_loop_markers_def)
      with False show ?thesis by simp
    qed
  qed
  have "filter (\<lambda>m. m \<le> - 2) ml = expected_loop_markers B"
    by (simp only: ml filter_append filter_mesh_part filter_loop_part append_Nil)
  then show "map (\<lambda>m. - m - 2) (filter (\<lambda>m. m \<le> - 2) ml) = map int [0..<B]"
    by (simp only: loop_part_index)
qed

lemma core_calls:
  "fst (tetrahedralize_core gen V F mk loops sw cbf)
     = (case assemble_plc V F mk loops of
          Inl e \<Rightarrow> []
        | Inr inp \<Rightarrow> (case normalize_switches sw cbf of Inl e \<Rightarrow> [] | Inr buf \<Rightarrow> [(buf, inp)]))"
  by (simp add: tetrahedralize_core_def split: sum.splits generated.splits)

lemma assemble_plc_valid:
  assumes "valid_input V F mk loops" "extents_fit V F loops"
  shows "\<exists>inp. assemble_plc V F mk loops = Inr inp
           \<and> numberoffacets inp = int (shape F ! 0) + int (length loops)
           \<and> facetmarkerlist inp
               = Some (map (marker_value (map_option data mk)) [0..<shape F ! 0]
                         @ map loop_marker [0..<length loops])"
proof -
  from assms(2) have fits: "fits_int (shape V ! 0)" "fits_int (shape F ! 0)" "fits_int (length loops)"
    and e: "3 * int (shape V ! 0) \<le> INT_MAX" "int (shape F ! 0) + int (length loops) \<le> INT_MAX"
    by (simp_all add: extents_fit_def fits_int_def)
  from validate_valid [OF fits(1,2) assms(1)] fits(3)
  have v: "validate V F mk loops
      = Inr (int (shape V ! 0), int (shape F ! 0), int (length loops), map_option data mk)"
    by (simp add: static_cast_int_fits)
  from assemble_lists [OF e, of V F "map_option data mk" loops] v
  show ?thesis by (auto simp: assemble_plc_def)
qed

text \<open>
  C1, amended. For a valid input whose extents fit and whose raw markers are all below
  \<open>INT_MAX\<close>, the marker list handed to the generator has \<open>M + B\<close> entries: entry
  \<open>i < M\<close> is \<open>-1\<close> when there is no marker array or the raw marker is negative and
  \<open>raw + 1\<close> otherwise, entry \<open>M + i\<close> is \<open>-(i + 2)\<close>. Every entry is \<open>-1\<close>,
  \<open>\<ge> 1\<close> or \<open>\<le> -2\<close>; the entries \<open>\<le> -2\<close> are exactly those of the loops, and
  \<open>-m - 2\<close> maps them, in order, onto \<open>0, \<dots>, B - 1\<close>. This is the structure every
  generator call of the core routine receives.
\<close>

theorem facet_marker_encoding:
  assumes "valid_input V F mk loops" "extents_fit V F loops"
    and "case mk of None \<Rightarrow> True | Some a \<Rightarrow> \<forall>i\<in>set [0..<shape F ! 0]. data a ! i < INT_MAX"
  shows "\<exists>inp ml. assemble_plc V F mk loops = Inr inp
           \<and> numberoffacets inp = int (shape F ! 0) + int (length loops)
           \<and> facetmarkerlist inp = Some ml
           \<and> ml = expected_markers (map_option data mk) (shape F ! 0) (length loops)
           \<and> length ml = shape F ! 0 + length loops
           \<and> (\<forall>m\<in>set ml. m = - 1 \<or> 1 \<le> m \<or> m \<le> - 2)
           \<and> (\<forall>j<length ml. ml ! j \<le> - 2 \<longleftrightarrow> shape F ! 0 \<le> j)
           \<and> map (\<lambda>m. - m - 2) (filter (\<lambda>m. m \<le> - 2) ml) = map int [0..<length loops]
           \<and> (\<forall>gen sw cbf. \<forall>(buf, inp')\<in>set (fst (tetrahedralize_core gen V F mk loops sw cbf)).
                 inp' = inp)"
proof -
  let ?M = "shape F ! 0" and ?B = "length loops" and ?raw = "map_option data mk"
  from assemble_plc_valid [OF assms(1,2)] obtain inp where
    inp: "assemble_plc V F mk loops = Inr inp"
      "numberoffacets inp = int ?M + int ?B"
      "facetmarkerlist inp = Some (map (marker_value ?raw) [0..<?M] @ map loop_marker [0..<?B])"
    by blast
  have "int ?B \<le> INT_MAX" using assms(2) by (simp add: extents_fit_def)
  then have lm: "map loop_marker [0..<?B] = map (\<lambda>i. - (int i + 2)) [0..<?B]"
    by (intro map_cong refl loop_marker_eq) simp
  have mv: "map (marker_value ?raw) [0..<?M]
      = map (\<lambda>i. case ?raw of None \<Rightarrow> - 1 | Some ms \<Rightarrow> if ms ! i < 0 then - 1 else ms ! i + 1) [0..<?M]"
    using assms(3) by (intro map_cong refl marker_value_eq) (auto split: option.splits)
  have "facetmarkerlist inp = Some (expected_markers ?raw ?M ?B)"
    by (simp only: inp(3) lm mv expected_markers_def expected_mesh_markers_def
        expected_loop_markers_def)
  moreover have "\<forall>gen sw cbf. \<forall>(buf, inp')\<in>set (fst (tetrahedralize_core gen V F mk loops sw cbf)).
                 inp' = inp"
    by (auto simp: core_calls inp(1) split: sum.splits)
  ultimately show ?thesis
    using inp(1,2) expected_markers_props [of ?raw ?M ?B] by blast
qed

theorem facet_marker_encoding_witness:
  "valid_input V_w F_w (Some markers_w) loops_w \<and> extents_fit V_w F_w loops_w
     \<and> list_all (\<lambda>i. data markers_w ! i < INT_MAX) [0..<shape F_w ! 0]
     \<and> (\<exists>inp. assemble_plc V_w F_w (Some markers_w) loops_w = Inr inp
            \<and> facetmarkerlist inp = Some [- 1, 8, - 2, - 3])"
proof -
  have h: "case Some markers_w of None \<Rightarrow> True
             | Some a \<Rightarrow> \<forall>i\<in>set [0..<shape F_w ! 0]. data a ! i < INT_MAX"
    by (simp add: F_w_def markers_w_def INT_MAX_def upt2)
  have e: "expected_markers (map_option data (Some markers_w)) (shape F_w ! 0) (length loops_w)
      = [- 1, 8, - 2, - 3]"
    by (simp add: expected_markers_def expected_mesh_markers_def expected_loop_markers_def F_w_def markers_w_def loops_w_def upt2)
  from facet_marker_encoding [OF valid_w extents_w h] e
  have "\<exists>inp. assemble_plc V_w F_w (Some markers_w) loops_w = Inr inp
            \<and> facetmarkerlist inp = Some [- 1, 8, - 2, - 3]"
    by auto
  with valid_w extents_w h show ?thesis by (simp add: list_all_iff)
qed

text \<open>
  At the raw marker \<open>INT_MAX\<close> the sum \<open>raw + 1\<close> wraps: the mesh facet gets the
  marker \<open>-2147483648\<close>, which is neither \<open>raw + 1\<close> nor outside the loops' range.
\<close>

theorem facet_marker_encoding_counterexample:
  "valid_input V_w F_w (Some markers_max) loops_w
     \<and> data markers_max ! 1 = 2147483647
     \<and> (case assemble_plc V_w F_w (Some markers_max) loops_w of
          Inl e \<Rightarrow> False
        | Inr inp \<Rightarrow> facetmarkerlist inp = Some [1, - 2147483648, - 2, - 3])
     \<and> expected_markers (Some (data markers_max)) 2 2 = [1, 2147483648, - 2, - 3]"
proof -
  from assemble_plc_valid [OF valid_max extents_w] obtain inp where
    inp: "assemble_plc V_w F_w (Some markers_max) loops_w = Inr inp"
      "facetmarkerlist inp
         = Some (map (marker_value (map_option data (Some markers_max))) [0..<shape F_w ! 0]
                   @ map loop_marker [0..<length loops_w])"
    by blast
  have "facetmarkerlist inp = Some [1, - 2147483648, - 2, - 3]"
    unfolding inp(2)
    by (simp add: F_w_def loops_w_def markers_max_def upt2 marker_value_def loop_marker_def wrap32_def)
  moreover have "expected_markers (Some (data markers_max)) 2 2 = [1, 2147483648, - 2, - 3]"
    by (simp add: expected_markers_def expected_mesh_markers_def expected_loop_markers_def markers_max_def upt2)
  ultimately show ?thesis
    using valid_max inp(1) by (simp add: markers_max_def)
qed

subsection \<open>Configuration normalizer\<close>

lemma scan_flags_eq:
  "scan_flags sw (hn, hf)
     = (hn \<or> CHR ''n'' \<in> set (c_string sw), hf \<or> CHR ''f'' \<in> set (c_string sw))"
  by (induction sw arbitrary: hn hf) (auto simp: c_string_def)

lemma c_string_terminated: "c_string (payload @ [NUL]) = c_string payload"
  by (induction payload) (simp_all add: c_string_def)

lemma ensure_flags_eq:
  "ensure_flags cbf (payload @ [NUL]) = payload @ missing_flags cbf payload @ [NUL]"
  by (simp add: ensure_flags_def scan_flags_eq c_string_terminated missing_flags_def Let_def)

text \<open>
  C7, amended. A text string, a bytes object or a byte array of rank 1 gives a buffer:
  the payload, then the flags \<open>n\<close> and \<open>f\<close> that derivation needs and that do not
  occur in the payload before its first NUL, then a terminating NUL. So every byte of the
  payload is kept in its place and the flags come after all of it; with both flags before
  the first NUL, or without derivation, the buffer is the payload and the NUL. Any other
  object raises the input-kind error, and an array of another rank the rank error of its
  element access.
\<close>

theorem configuration_normalizer:
  "(\<forall>payload. payload_bytes sw = Some payload
        \<longrightarrow> normalize_switches sw cbf = Inr (payload @ missing_flags cbf payload @ [NUL]))
     \<and> (payload_bytes sw = None
        \<longrightarrow> normalize_switches sw cbf = Inl (if sw = PyOther then SwitchesKind else SwitchesNot1D))"
  by (cases sw)
     (simp_all add: payload_bytes_def normalize_switches_def switch_buffer_def ensure_flags_eq)

theorem configuration_normalizer_witness:
  "payload_bytes (PyStr ''pq'') = Some ''pq''
     \<and> normalize_switches (PyStr ''pq'') True = Inr (''pqnf'' @ [NUL])
     \<and> payload_bytes (PyBytes ''pfnq'') = Some ''pfnq''
     \<and> normalize_switches (PyBytes ''pfnq'') True = Inr (''pfnq'' @ [NUL])
     \<and> payload_bytes (PyArray switches_arr) = Some ''pn''
     \<and> normalize_switches (PyArray switches_arr) True = Inr (''pnf'' @ [NUL])
     \<and> payload_bytes PyOther = None
     \<and> normalize_switches PyOther True = Inl SwitchesKind"
proof -
  have p: "payload_bytes (PyStr ''pq'') = Some ''pq''" "payload_bytes (PyBytes ''pfnq'') = Some ''pfnq''"
    "payload_bytes PyOther = None" "payload_bytes (PyArray switches_arr) = Some ''pn''"
    by (simp_all add: payload_bytes_def switches_arr_def at1_def upt_rec)
  have m: "missing_flags True ''pq'' = ''nf''" "missing_flags True ''pfnq'' = []"
    "missing_flags True ''pn'' = ''f''"
    by (simp_all add: missing_flags_def c_string_def NUL_def)
  from configuration_normalizer [of "PyStr ''pq''" True] p(1) m(1)
  have 1: "normalize_switches (PyStr ''pq'') True = Inr (''pqnf'' @ [NUL])" by simp
  from configuration_normalizer [of "PyBytes ''pfnq''" True] p(2) m(2)
  have 2: "normalize_switches (PyBytes ''pfnq'') True = Inr (''pfnq'' @ [NUL])" by simp
  from configuration_normalizer [of PyOther True] p(3)
  have 3: "normalize_switches PyOther True = Inl SwitchesKind" by simp
  from configuration_normalizer [of "PyArray switches_arr" True] p(4) m(3)
  have 4: "normalize_switches (PyArray switches_arr) True = Inr (''pnf'' @ [NUL])" by simp
  from p 1 2 3 4 show ?thesis by simp
qed

text \<open>
  A payload that has both flags, but after a NUL: the scan stops at the NUL, and both
  flags are appended although they occur in the payload.
\<close>

theorem configuration_normalizer_counterexample:
  "CHR ''n'' \<in> set payload_nul \<and> CHR ''f'' \<in> set payload_nul
     \<and> normalize_switches (PyStr payload_nul) True = Inr (payload_nul @ ''nf'' @ [NUL])
     \<and> normalize_switches (PyStr payload_nul) True \<noteq> Inr (payload_nul @ [NUL])"
  by (simp add: payload_nul_def normalize_switches_def switch_buffer_def ensure_flags_def NUL_def)

subsection \<open>Marshalling of the generator output\<close>

lemma to_array_shape:
  "to_array src n m = empty_array \<or> (ndim (to_array src n m) = 2 \<and> shape (to_array src n m) = [nat n, nat m]
     \<and> src \<noteq> None \<and> 0 < n \<and> 0 < m)"
  by (auto simp: to_array_def split: option.splits)

lemma to_array_empty_iff:
  "to_array src n m = empty_array \<longleftrightarrow> src = None \<or> n \<le> 0 \<or> m \<le> 0"
  by (auto simp: to_array_def empty_array_def split: option.splits)

lemma to_array_nonpositive: "n \<le> 0 \<Longrightarrow> to_array src n m = empty_array"
  by (simp add: to_array_def split: option.splits)

lemma to_vector_nonpositive: "n \<le> 0 \<Longrightarrow> to_vector src n = empty_array"
  by (simp add: to_vector_def split: option.splits)

lemma derive_TetsShape:
  assumes "tb = None \<or> K \<le> 0 \<or> c \<noteq> 4"
  shows "compute_boundary_face_tris (to_array tb K c) (to_array nb K 4) = Inl TetsShape"
proof (cases "tb = None \<or> K \<le> 0 \<or> c \<le> 0")
  case True
  then have "to_array tb K c = empty_array" by (simp add: to_array_empty_iff)
  then show ?thesis by (simp add: compute_boundary_face_tris_def empty_array_def)
next
  case False
  with assms have "c \<noteq> 4" "0 < c" by auto
  then have "nat c \<noteq> 4" by linarith
  moreover from False have "ndim (to_array tb K c) = 2" "shape (to_array tb K c) = [nat K, nat c]"
    by (auto simp: to_array_def split: option.splits)
  ultimately show ?thesis by (simp add: compute_boundary_face_tris_def)
qed

lemma derive_ok:
  assumes "tb \<noteq> None" "0 < K" "nb \<noteq> None"
  shows "compute_boundary_face_tris (to_array tb K 4) (to_array nb K 4)
           = Inr \<lparr>ndim = 2, shape = [length (boundary_pairs (to_array nb K 4) (nat K)), 3],
                  data = concat (map (boundary_tri (to_array tb K 4))
                                   (boundary_pairs (to_array nb K 4) (nat K)))\<rparr>"
proof -
  from assms have "ndim (to_array tb K 4) = 2" "shape (to_array tb K 4) = [nat K, 4]"
    "ndim (to_array nb K 4) = 2" "shape (to_array nb K 4) = [nat K, 4]"
    by (auto simp: to_array_def split: option.splits)
  then show ?thesis by (rule compute_boundary_face_tris_eq)
qed

lemma populate_no_derivation:
  assumes "neighborlist out = None \<or> \<not> cbf"
  shows "\<exists>res. populate_result sw cbf out = Inr res
           \<and> boundary_tri_faces res = None \<and> boundary_tri_markers res = None"
  using assms by (auto simp: populate_result_def Let_def)

lemma populate_derivation_Inl:
  assumes "cbf" "neighborlist out \<noteq> None"
    and "compute_boundary_face_tris
           (to_array (tetrahedronlist out) (numberoftetrahedra out) (numberofcorners out))
           (to_array (neighborlist out) (numberoftetrahedra out) 4) = Inl e"
  shows "populate_result sw cbf out = Inl e"
  using assms by (simp add: populate_result_def Let_def)

lemma populate_derivation_Inr:
  assumes "cbf" "neighborlist out \<noteq> None"
    and "compute_boundary_face_tris
           (to_array (tetrahedronlist out) (numberoftetrahedra out) (numberofcorners out))
           (to_array (neighborlist out) (numberoftetrahedra out) 4) = Inr bf"
  shows "\<exists>res. populate_result sw cbf out = Inr res
           \<and> boundary_tri_faces res = Some bf
           \<and> boundary_tri_markers res
               = (if triface_marker_map out \<noteq> []
                  then Some (boundary_markers (triface_marker_map out) bf) else None)"
  using assms by (simp add: populate_result_def Let_def)

lemma populate_fields:
  assumes "populate_result sw cbf out = Inr res"
  shows "points res = to_array (pointlist out) (numberofpoints out) 3"
    and "tets res = to_array (tetrahedronlist out) (numberoftetrahedra out) (numberofcorners out)"
    and "corners res = numberofcorners out"
    and "tri_faces res
           = (if 0 < numberoftrifaces out \<and> trifacelist out \<noteq> None
              then Some (to_array (trifacelist out) (numberoftrifaces out) 3) else None)"
    and "tri_markers res
           = (if 0 < numberoftrifaces out \<and> trifacelist out \<noteq> None \<and> trifacemarkerlist out \<noteq> None
              then Some (to_vector (trifacemarkerlist out) (numberoftrifaces out)) else None)"
    and "edges res
           = (if 0 < numberofedges out \<and> edgelist out \<noteq> None
              then Some (to_array (edgelist out) (numberofedges out) 2) else None)"
    and "edge_markers res
           = (if 0 < numberofedges out \<and> edgelist out \<noteq> None \<and> edgemarkerlist out \<noteq> None
              then Some (to_vector (edgemarkerlist out) (numberofedges out)) else None)"
    and "neighbors res
           = (if neighborlist out \<noteq> None
              then Some (to_array (neighborlist out) (numberoftetrahedra out) 4) else None)"
    and "point_markers res
           = (if pointmarkerlist out \<noteq> None
              then Some (to_vector (pointmarkerlist out) (numberofpoints out)) else None)"
    and "tet_attr res
           = (if tetrahedronattributelist out \<noteq> None \<and> 0 < numberoftetrahedronattributes out
              then Some (to_array (tetrahedronattributelist out) (numberoftetrahedra out)
                           (numberoftetrahedronattributes out))
              else None)"
    and "tet_vol res
           = (if tetrahedronvolumelist out \<noteq> None
              then Some (to_vector (tetrahedronvolumelist out) (numberoftetrahedra out)) else None)"
    and "switches res = (case sw of PyStr s \<Rightarrow> s | _ \<Rightarrow> [])"
proof -
  obtain bf bm where
    "res = \<lparr>points = to_array (pointlist out) (numberofpoints out) 3,
            tets = to_array (tetrahedronlist out) (numberoftetrahedra out) (numberofcorners out),
            tri_faces = (if 0 < numberoftrifaces out \<and> trifacelist out \<noteq> None
              then Some (to_array (trifacelist out) (numberoftrifaces out) 3) else None),
            tri_markers = (if (0 < numberoftrifaces out \<and> trifacelist out \<noteq> None) \<and> trifacemarkerlist out \<noteq> None
              then Some (to_vector (trifacemarkerlist out) (numberoftrifaces out)) else None),
            boundary_tri_faces = bf, boundary_tri_markers = bm,
            edges = (if 0 < numberofedges out \<and> edgelist out \<noteq> None
              then Some (to_array (edgelist out) (numberofedges out) 2) else None),
            edge_markers = (if (0 < numberofedges out \<and> edgelist out \<noteq> None) \<and> edgemarkerlist out \<noteq> None
              then Some (to_vector (edgemarkerlist out) (numberofedges out)) else None),
            neighbors = (if neighborlist out \<noteq> None
              then Some (to_array (neighborlist out) (numberoftetrahedra out) 4) else None),
            point_markers = (if pointmarkerlist out \<noteq> None
              then Some (to_vector (pointmarkerlist out) (numberofpoints out)) else None),
            tet_attr = (if tetrahedronattributelist out \<noteq> None \<and> 0 < numberoftetrahedronattributes out
              then Some (to_array (tetrahedronattributelist out) (numberoftetrahedra out)
                           (numberoftetrahedronattributes out))
              else None),
            tet_vol = (if tetrahedronvolumelist out \<noteq> None
              then Some (to_vector (tetrahedronvolumelist out) (numberoftetrahedra out)) else None),
            corners = numberofcorners out,
            switches = (case sw of PyStr s \<Rightarrow> s | _ \<Rightarrow> [])\<rparr>"
    using assms unfolding populate_result_def Let_def
    by (auto split: sum.splits prod.splits)
  then show "points res = to_array (pointlist out) (numberofpoints out) 3"
    and "tets res = to_array (tetrahedronlist out) (numberoftetrahedra out) (numberofcorners out)"
    and "corners res = numberofcorners out"
    and "tri_faces res
           = (if 0 < numberoftrifaces out \<and> trifacelist out \<noteq> None
              then Some (to_array (trifacelist out) (numberoftrifaces out) 3) else None)"
    and "tri_markers res
           = (if 0 < numberoftrifaces out \<and> trifacelist out \<noteq> None \<and> trifacemarkerlist out \<noteq> None
              then Some (to_vector (trifacemarkerlist out) (numberoftrifaces out)) else None)"
    and "edges res
           = (if 0 < numberofedges out \<and> edgelist out \<noteq> None
              then Some (to_array (edgelist out) (numberofedges out) 2) else None)"
    and "edge_markers res
           = (if 0 < numberofedges out \<and> edgelist out \<noteq> None \<and> edgemarkerlist out \<noteq> None
              then Some (to_vector (edgemarkerlist out) (numberofedges out)) else None)"
    and "neighbors res
           = (if neighborlist out \<noteq> None
              then Some (to_array (neighborlist out) (numberoftetrahedra out) 4) else None)"
    and "point_markers res
           = (if pointmarkerlist out \<noteq> None
              then Some (to_vector (pointmarkerlist out) (numberofpoints out)) else None)"
    and "tet_attr res
           = (if tetrahedronattributelist out \<noteq> None \<and> 0 < numberoftetrahedronattributes out
              then Some (to_array (tetrahedronattributelist out) (numberoftetrahedra out)
                           (numberoftetrahedronattributes out))
              else None)"
    and "tet_vol res
           = (if tetrahedronvolumelist out \<noteq> None
              then Some (to_vector (tetrahedronvolumelist out) (numberoftetrahedra out)) else None)"
    and "switches res = (case sw of PyStr s \<Rightarrow> s | _ \<Rightarrow> [])"
    by simp_all
qed

lemma populate_TetsShape:
  assumes "cbf" "neighborlist out \<noteq> None"
    and "tetrahedronlist out = None \<or> numberoftetrahedra out \<le> 0 \<or> numberofcorners out \<noteq> 4"
  shows "populate_result sw cbf out = Inl TetsShape"
  using populate_derivation_Inl [OF assms(1,2) derive_TetsShape [OF assms(3)]] .

lemma populate_derived:
  assumes "cbf" "neighborlist out \<noteq> None"
    and "tetrahedronlist out \<noteq> None" "0 < numberoftetrahedra out" "numberofcorners out = 4"
  shows "\<exists>res bf. populate_result sw cbf out = Inr res
           \<and> compute_boundary_face_tris
                (to_array (tetrahedronlist out) (numberoftetrahedra out) 4)
                (to_array (neighborlist out) (numberoftetrahedra out) 4) = Inr bf
           \<and> boundary_tri_faces res = Some bf
           \<and> boundary_tri_markers res
               = (if triface_marker_map out \<noteq> []
                  then Some (boundary_markers (triface_marker_map out) bf) else None)"
proof -
  from derive_ok [OF assms(3,4,2)] obtain bf where
    bf: "compute_boundary_face_tris
           (to_array (tetrahedronlist out) (numberoftetrahedra out) 4)
           (to_array (neighborlist out) (numberoftetrahedra out) 4) = Inr bf"
    by blast
  with assms(5) have "compute_boundary_face_tris
           (to_array (tetrahedronlist out) (numberoftetrahedra out) (numberofcorners out))
           (to_array (neighborlist out) (numberoftetrahedra out) 4) = Inr bf"
    by simp
  from populate_derivation_Inr [OF assms(1,2) this] bf show ?thesis by blast
qed

lemma populate_Inl:
  assumes "populate_result sw cbf out = Inl e"
  shows "e = TetsShape \<and> cbf \<and> neighborlist out \<noteq> None
           \<and> (tetrahedronlist out = None \<or> numberoftetrahedra out \<le> 0 \<or> numberofcorners out \<noteq> 4)"
proof -
  have d: "cbf \<and> neighborlist out \<noteq> None"
  proof (rule ccontr)
    assume "\<not> (cbf \<and> neighborlist out \<noteq> None)"
    then have "neighborlist out = None \<or> \<not> cbf" by blast
    from populate_no_derivation [OF this, of sw] assms show False by auto
  qed
  show ?thesis
  proof (cases "tetrahedronlist out = None \<or> numberoftetrahedra out \<le> 0 \<or> numberofcorners out \<noteq> 4")
    case True
    from d have d': "cbf" "neighborlist out \<noteq> None" by auto
    from populate_TetsShape [OF d' True, of sw] assms d True show ?thesis by simp
  next
    case False
    from d have d': "cbf" "neighborlist out \<noteq> None" by auto
    from False have "tetrahedronlist out \<noteq> None" "0 < numberoftetrahedra out" "numberofcorners out = 4"
      by auto
    from populate_derived [OF d' this, of sw] assms show ?thesis by auto
  qed
qed

lemma populate_faces_None_iff:
  assumes "populate_result sw cbf out = Inr res"
  shows "boundary_tri_faces res = None \<longleftrightarrow> neighborlist out = None \<or> \<not> cbf"
proof (cases "neighborlist out = None \<or> \<not> cbf")
  case True
  with populate_no_derivation [OF True, of sw] assms show ?thesis by auto
next
  case False
  then have d: "cbf" "neighborlist out \<noteq> None" by auto
  have t: "\<not> (tetrahedronlist out = None \<or> numberoftetrahedra out \<le> 0 \<or> numberofcorners out \<noteq> 4)"
  proof
    assume "tetrahedronlist out = None \<or> numberoftetrahedra out \<le> 0 \<or> numberofcorners out \<noteq> 4"
    from populate_TetsShape [OF d this, of sw] assms show False by simp
  qed
  then have "tetrahedronlist out \<noteq> None" "0 < numberoftetrahedra out" "numberofcorners out = 4"
    by auto
  from populate_derived [OF d this, of sw] assms False show ?thesis by auto
qed

lemma populate_markers:
  assumes "populate_result sw cbf out = Inr res" "boundary_tri_faces res = Some bf"
  shows "boundary_tri_markers res
           = (if triface_marker_map out \<noteq> []
              then Some (boundary_markers (triface_marker_map out) bf) else None)"
    and "compute_boundary_face_tris (tets res) (the (neighbors res)) = Inr bf"
    and "cbf" and "neighborlist out \<noteq> None"
proof -
  from populate_faces_None_iff [OF assms(1)] assms(2)
  have d: "cbf" "neighborlist out \<noteq> None" by auto
  have t: "\<not> (tetrahedronlist out = None \<or> numberoftetrahedra out \<le> 0 \<or> numberofcorners out \<noteq> 4)"
  proof
    assume "tetrahedronlist out = None \<or> numberoftetrahedra out \<le> 0 \<or> numberofcorners out \<noteq> 4"
    from populate_TetsShape [OF d this, of sw] assms show False by simp
  qed
  then have t': "tetrahedronlist out \<noteq> None" "0 < numberoftetrahedra out" "numberofcorners out = 4"
    by auto
  from populate_derived [OF d t', of sw] assms obtain bf' where
    bf': "compute_boundary_face_tris
            (to_array (tetrahedronlist out) (numberoftetrahedra out) 4)
            (to_array (neighborlist out) (numberoftetrahedra out) 4) = Inr bf'"
      "bf' = bf"
      "boundary_tri_markers res
         = (if triface_marker_map out \<noteq> []
            then Some (boundary_markers (triface_marker_map out) bf') else None)"
    by auto
  show "boundary_tri_markers res
           = (if triface_marker_map out \<noteq> []
              then Some (boundary_markers (triface_marker_map out) bf) else None)"
    using bf' by simp
  show "compute_boundary_face_tris (tets res) (the (neighbors res)) = Inr bf"
    using bf' populate_fields(2,8) [OF assms(1)] d t' by simp
  show "cbf" "neighborlist out \<noteq> None" by (fact d)+
qed

lemma triface_marker_map_Nil:
  "numberoftrifaces out \<le> 0 \<or> trifacelist out = None \<or> trifacemarkerlist out = None
     \<Longrightarrow> triface_marker_map out = []"
  by (auto simp: triface_marker_map_def split: option.splits)

lemma populate_out_w: "populate_result (PyStr ''pq'') True out_w = Inr res_w"
  by code_simp

lemma out_w_fields:
  "0 < numberoftrifaces out_w"
  "trifacelist out_w = Some [1, 2, 3, 0, 2, 3, 0, 1, 3, 3, 2, 1]"
  "trifacemarkerlist out_w = Some [- 3, - 2, 8, 9]"
  "neighborlist out_w \<noteq> None"
  by (simp_all add: out_w_def tetgenio_init_def)

text \<open>
  C8, amended. Explicit faces and edges are present when their count is positive and
  their buffer non-null, and their markers when the marker buffer is non-null as well.
  Adjacency, point markers and volumes are present when their buffer is non-null, whatever
  the count; attributes when their buffer is non-null and the number of attributes per
  tetrahedron is positive. A present quantity is converted, to the empty default array
  when its row count is not positive; any other is absent. A null adjacency buffer, or
  derivation not requested, never raises: the only error after generation is the shape
  error of the boundary face derivation.
\<close>

theorem output_marshaller:
  "(\<forall>res. populate_result sw cbf out = Inr res \<longrightarrow>
      tri_faces res
        = (if 0 < numberoftrifaces out \<and> trifacelist out \<noteq> None
           then Some (to_array (trifacelist out) (numberoftrifaces out) 3) else None)
    \<and> tri_markers res
        = (if 0 < numberoftrifaces out \<and> trifacelist out \<noteq> None \<and> trifacemarkerlist out \<noteq> None
           then Some (to_vector (trifacemarkerlist out) (numberoftrifaces out)) else None)
    \<and> edges res
        = (if 0 < numberofedges out \<and> edgelist out \<noteq> None
           then Some (to_array (edgelist out) (numberofedges out) 2) else None)
    \<and> edge_markers res
        = (if 0 < numberofedges out \<and> edgelist out \<noteq> None \<and> edgemarkerlist out \<noteq> None
           then Some (to_vector (edgemarkerlist out) (numberofedges out)) else None)
    \<and> neighbors res
        = (if neighborlist out \<noteq> None
           then Some (to_array (neighborlist out) (numberoftetrahedra out) 4) else None)
    \<and> point_markers res
        = (if pointmarkerlist out \<noteq> None
           then Some (to_vector (pointmarkerlist out) (numberofpoints out)) else None)
    \<and> tet_attr res
        = (if tetrahedronattributelist out \<noteq> None \<and> 0 < numberoftetrahedronattributes out
           then Some (to_array (tetrahedronattributelist out) (numberoftetrahedra out)
                        (numberoftetrahedronattributes out))
           else None)
    \<and> tet_vol res
        = (if tetrahedronvolumelist out \<noteq> None
           then Some (to_vector (tetrahedronvolumelist out) (numberoftetrahedra out)) else None))
   \<and> (\<forall>n m. n \<le> 0 \<longrightarrow> to_array (neighborlist out) n m = empty_array
                        \<and> to_vector (pointmarkerlist out) n = empty_array)
   \<and> (neighborlist out = None \<or> \<not> cbf \<longrightarrow> (\<exists>res. populate_result sw cbf out = Inr res))
   \<and> (\<forall>e. populate_result sw cbf out = Inl e
          \<longrightarrow> e = TetsShape \<and> cbf \<and> neighborlist out \<noteq> None)"
proof (intro conjI allI impI)
  fix res assume r: "populate_result sw cbf out = Inr res"
  note f = populate_fields [OF r]
  show "tri_faces res
        = (if 0 < numberoftrifaces out \<and> trifacelist out \<noteq> None
           then Some (to_array (trifacelist out) (numberoftrifaces out) 3) else None)"
    by (rule f(4))
  show "tri_markers res
        = (if 0 < numberoftrifaces out \<and> trifacelist out \<noteq> None \<and> trifacemarkerlist out \<noteq> None
           then Some (to_vector (trifacemarkerlist out) (numberoftrifaces out)) else None)"
    by (rule f(5))
  show "edges res
        = (if 0 < numberofedges out \<and> edgelist out \<noteq> None
           then Some (to_array (edgelist out) (numberofedges out) 2) else None)"
    by (rule f(6))
  show "edge_markers res
        = (if 0 < numberofedges out \<and> edgelist out \<noteq> None \<and> edgemarkerlist out \<noteq> None
           then Some (to_vector (edgemarkerlist out) (numberofedges out)) else None)"
    by (rule f(7))
  show "neighbors res
        = (if neighborlist out \<noteq> None
           then Some (to_array (neighborlist out) (numberoftetrahedra out) 4) else None)"
    by (rule f(8))
  show "point_markers res
        = (if pointmarkerlist out \<noteq> None
           then Some (to_vector (pointmarkerlist out) (numberofpoints out)) else None)"
    by (rule f(9))
  show "tet_attr res
        = (if tetrahedronattributelist out \<noteq> None \<and> 0 < numberoftetrahedronattributes out
           then Some (to_array (tetrahedronattributelist out) (numberoftetrahedra out)
                        (numberoftetrahedronattributes out))
           else None)"
    by (rule f(10))
  show "tet_vol res
        = (if tetrahedronvolumelist out \<noteq> None
           then Some (to_vector (tetrahedronvolumelist out) (numberoftetrahedra out)) else None)"
    by (rule f(11))
next
  fix n :: int and m :: int assume "n \<le> 0"
  then show "to_array (neighborlist out) n m = empty_array"
    and "to_vector (pointmarkerlist out) n = empty_array"
    by (simp_all add: to_array_nonpositive to_vector_nonpositive)
next
  assume "neighborlist out = None \<or> \<not> cbf"
  from populate_no_derivation [OF this, of sw]
  show "\<exists>res. populate_result sw cbf out = Inr res" by blast
next
  fix e assume e: "populate_result sw cbf out = Inl e"
  from populate_Inl [OF e] show "e = TetsShape" and "cbf" and "neighborlist out \<noteq> None"
    by simp_all
qed

theorem output_marshaller_witness:
  "populate_result (PyStr ''pq'') True out_w = Inr res_w
     \<and> tri_faces res_w = Some (to_array (trifacelist out_w) (numberoftrifaces out_w) 3)
     \<and> neighbors res_w = Some (to_array (neighborlist out_w) (numberoftetrahedra out_w) 4)
     \<and> edges res_w = None \<and> point_markers res_w = None \<and> tet_vol res_w = None
     \<and> to_array (neighborlist out_w) 0 4 = empty_array
     \<and> neighborlist out_nonb = None
     \<and> (\<exists>res. populate_result (PyStr ''pq'') True out_nonb = Inr res)
     \<and> populate_result (PyStr ''pq'') True out_ho = Inl TetsShape"
proof -
  note t = output_marshaller [of "PyStr ''pq''" True out_w]
  have f: "0 < numberoftrifaces out_w \<and> trifacelist out_w \<noteq> None" "neighborlist out_w \<noteq> None"
    "\<not> (0 < numberofedges out_w \<and> edgelist out_w \<noteq> None)" "pointmarkerlist out_w = None"
    "tetrahedronvolumelist out_w = None"
    by (simp_all add: out_w_def tetgenio_init_def)
  from t populate_out_w f have 1:
    "tri_faces res_w = Some (to_array (trifacelist out_w) (numberoftrifaces out_w) 3)"
    "neighbors res_w = Some (to_array (neighborlist out_w) (numberoftetrahedra out_w) 4)"
    "edges res_w = None" "point_markers res_w = None" "tet_vol res_w = None"
    by simp_all
  from t have 2: "to_array (neighborlist out_w) 0 4 = empty_array" by simp
  have n: "neighborlist out_nonb = None" by (simp add: out_nonb_def)
  from output_marshaller [of "PyStr ''pq''" True out_nonb] n
  have 3: "\<exists>res. populate_result (PyStr ''pq'') True out_nonb = Inr res" by blast
  have "populate_result (PyStr ''pq'') True out_ho = Inl TetsShape" by code_simp
  with populate_out_w 1 2 n 3 show ?thesis by simp
qed

text \<open>
  An adjacency buffer that is non-null with no tetrahedron: the adjacency is reported as
  an empty array, not as absent, and with derivation requested the call raises.
\<close>

theorem output_marshaller_counterexample:
  "neighborlist out_nb = Some [] \<and> numberoftetrahedra out_nb = 0
     \<and> (case populate_result (PyStr ''pq'') False out_nb of
          Inl e \<Rightarrow> False
        | Inr res \<Rightarrow> neighbors res = Some empty_array \<and> neighbors res \<noteq> None)
     \<and> populate_result (PyStr ''pq'') True out_nb = Inl TetsShape"
proof -
  have 1: "neighborlist out_nb = Some []" "numberoftetrahedra out_nb = 0"
    by (simp_all add: out_nb_def tetgenio_init_def)
  have 2: "populate_result (PyStr ''pq'') True out_nb = Inl TetsShape" by code_simp
  have "populate_result (PyStr ''pq'') False out_nb
      = Inr \<lparr>points = empty_array, tets = empty_array, tri_faces = None, tri_markers = None,
             boundary_tri_faces = None, boundary_tri_markers = None, edges = None,
             edge_markers = None, neighbors = Some empty_array, point_markers = None,
             tet_attr = None, tet_vol = None, corners = 4, switches = ''pq''\<rparr>"
    by code_simp
  with 1 2 show ?thesis by simp
qed

subsection \<open>Absence propagation\<close>

text \<open>
  C5. When the adjacency is absent, which it is exactly when its buffer is null, or
  derivation is not requested, the result is produced with both the boundary faces and
  their markers absent, and the boundary faces of a result are absent in no other case. When boundary faces are derived and the output
  faces or their markers are missing, the boundary face markers are absent: no array of
  zeros stands in for them.
\<close>

theorem absence_propagation:
  "(neighborlist out = None \<or> \<not> cbf
      \<longrightarrow> (\<exists>res. populate_result sw cbf out = Inr res
             \<and> boundary_tri_faces res = None \<and> boundary_tri_markers res = None))
   \<and> (\<forall>res. populate_result sw cbf out = Inr res
          \<longrightarrow> (neighbors res = None \<longleftrightarrow> neighborlist out = None))
   \<and> (\<forall>res. populate_result sw cbf out = Inr res
          \<longrightarrow> (boundary_tri_faces res = None \<longleftrightarrow> neighborlist out = None \<or> \<not> cbf))
   \<and> (\<forall>res bf. populate_result sw cbf out = Inr res \<and> boundary_tri_faces res = Some bf
          \<and> (numberoftrifaces out \<le> 0 \<or> trifacelist out = None \<or> trifacemarkerlist out = None)
          \<longrightarrow> boundary_tri_markers res = None)"
proof (intro conjI allI impI)
  assume "neighborlist out = None \<or> \<not> cbf"
  then show "\<exists>res. populate_result sw cbf out = Inr res
             \<and> boundary_tri_faces res = None \<and> boundary_tri_markers res = None"
    by (rule populate_no_derivation)
next
  fix res assume "populate_result sw cbf out = Inr res"
  from populate_fields(8) [OF this]
  show "neighbors res = None \<longleftrightarrow> neighborlist out = None"
    by simp
next
  fix res assume "populate_result sw cbf out = Inr res"
  then show "boundary_tri_faces res = None \<longleftrightarrow> neighborlist out = None \<or> \<not> cbf"
    by (rule populate_faces_None_iff)
next
  fix res bf
  assume a: "populate_result sw cbf out = Inr res \<and> boundary_tri_faces res = Some bf
          \<and> (numberoftrifaces out \<le> 0 \<or> trifacelist out = None \<or> trifacemarkerlist out = None)"
  then have "numberoftrifaces out \<le> 0 \<or> trifacelist out = None \<or> trifacemarkerlist out = None"
    by (elim conjE)
  then have "triface_marker_map out = []" by (rule triface_marker_map_Nil)
  with populate_markers(1) [of sw cbf out res bf] a show "boundary_tri_markers res = None" by simp
qed

theorem absence_propagation_witness:
  "neighborlist out_nonb = None
     \<and> (\<exists>res. populate_result (PyStr ''pq'') True out_nonb = Inr res
            \<and> boundary_tri_faces res = None \<and> boundary_tri_markers res = None)
     \<and> (\<exists>res. populate_result (PyStr ''pq'') True out_nomk = Inr res
            \<and> boundary_tri_faces res = Some bf_w \<and> trifacemarkerlist out_nomk = None
            \<and> boundary_tri_markers res = None)"
proof -
  have n: "neighborlist out_nonb = None" by (simp add: out_nonb_def)
  from absence_propagation [of out_nonb True "PyStr ''pq''"] n
  have 1: "\<exists>res. populate_result (PyStr ''pq'') True out_nonb = Inr res
            \<and> boundary_tri_faces res = None \<and> boundary_tri_markers res = None"
    by blast
  have m: "trifacemarkerlist out_nomk = None" by (simp add: out_nomk_def)
  have "populate_result (PyStr ''pq'') True out_nomk
      = Inr (res_w\<lparr>tri_markers := None, boundary_tri_markers := None\<rparr>)"
    by code_simp
  then obtain res where r: "populate_result (PyStr ''pq'') True out_nomk = Inr res"
    "boundary_tri_faces res = Some bf_w" by (simp add: res_w_def)
  from absence_propagation [of out_nomk True "PyStr ''pq''"] r m
  have "boundary_tri_markers res = None" by blast
  with r m have 2: "\<exists>res. populate_result (PyStr ''pq'') True out_nomk = Inr res
            \<and> boundary_tri_faces res = Some bf_w \<and> trifacemarkerlist out_nomk = None
            \<and> boundary_tri_markers res = None"
    by blast
  from n 1 2 show ?thesis by blast
qed

subsection \<open>Higher-order tetrahedra\<close>

text \<open>
  C10. With derivation enabled, when the generator returns an output whose corner count
  is not 4 and whose adjacency buffer is non-null, the call has invoked the generator once
  and raises the shape error \<open>tets must have shape (T,4)\<close>; no result is returned.
\<close>

theorem higher_order_rejected:
  assumes "assemble_plc V F mk loops = Inr inp" "normalize_switches sw True = Inr buf"
    and "gen buf inp = Returns out"
    and "numberofcorners out \<noteq> 4" "neighborlist out \<noteq> None"
  shows "tetrahedralize_core gen V F mk loops sw True = ([(buf, inp)], Inl TetsShape)
           \<and> what TetsShape = ''tets must have shape (T,4)''"
proof -
  have "populate_result sw True out = Inl TetsShape"
    using assms(4,5) by (intro populate_TetsShape) simp_all
  with assms(1,2,3) show ?thesis by (simp add: tetrahedralize_core_def)
qed

lemma plc_w: "\<exists>inp. assemble_plc V_w F_w (Some markers_w) loops_w = Inr inp"
  using assemble_plc_valid [OF valid_w extents_w] by blast

theorem higher_order_rejected_witness:
  "assemble_plc V_w F_w (Some markers_w) loops_w
       = Inr (projr (assemble_plc V_w F_w (Some markers_w) loops_w))
     \<and> normalize_switches (PyStr ''pq'') True = Inr (''pqnf'' @ [NUL])
     \<and> numberofcorners out_ho = 10 \<and> neighborlist out_ho \<noteq> None
     \<and> tetrahedralize_core gen_ho V_w F_w (Some markers_w) loops_w (PyStr ''pq'') True
         = ([(''pqnf'' @ [NUL], projr (assemble_plc V_w F_w (Some markers_w) loops_w))],
            Inl TetsShape)
     \<and> what TetsShape = ''tets must have shape (T,4)''"
proof -
  from plc_w obtain inp where a: "assemble_plc V_w F_w (Some markers_w) loops_w = Inr inp"
    by blast
  have n: "normalize_switches (PyStr ''pq'') True = Inr (''pqnf'' @ [NUL])"
    by (simp add: normalize_switches_def switch_buffer_def ensure_flags_def NUL_def)
  have g: "gen_ho (''pqnf'' @ [NUL]) inp = Returns out_ho" by (simp add: gen_ho_def)
  have c: "numberofcorners out_ho \<noteq> 4" "neighborlist out_ho \<noteq> None" "numberofcorners out_ho = 10"
    by (simp_all add: out_ho_def out_w_def tetgenio_init_def)
  from higher_order_rejected [where gen = gen_ho and out = out_ho, OF a n g c(1,2)] a n c
  show ?thesis by simp
qed

subsection \<open>Marker reconciliation\<close>

lemma update_nonempty: "AList.update k v al \<noteq> []"
  by (cases al) simp_all

lemma fold_update_nonempty:
  "js \<noteq> [] \<Longrightarrow> fold (\<lambda>i m. AList.update (k i) (v i) m) js m0 \<noteq> []"
proof (induction js arbitrary: m0 rule: rev_induct)
  case Nil
  then show ?case by simp
next
  case (snoc j js)
  show ?case by (simp add: update_nonempty)
qed

lemma map_of_fold_update:
  "map_of (fold (\<lambda>i m. AList.update (k i) (v i) m) js m0) key
     = (case find (\<lambda>i. k i = key) (rev js) of None \<Rightarrow> map_of m0 key | Some i \<Rightarrow> Some (v i))"
proof (induction js arbitrary: m0 rule: rev_induct)
  case Nil
  then show ?case by simp
next
  case (snoc j js)
  show ?case by (simp add: update_conv' snoc.IH)
qed

lemma triface_marker_map_lookup:
  assumes "0 < numberoftrifaces out" "trifacelist out = Some tfl" "trifacemarkerlist out = Some tml"
  shows "triface_marker_map out \<noteq> []"
    and "(case map_of (triface_marker_map out) key of Some v \<Rightarrow> v | None \<Rightarrow> 0)
           = last_wins_marker tfl tml (nat (numberoftrifaces out)) key"
proof -
  let ?n = "nat (numberoftrifaces out)"
  have m: "triface_marker_map out
      = fold (\<lambda>i m. AList.update (output_face_key tfl i) (tml ! i) m) [0..<?n] []"
    using assms by (simp add: triface_marker_map_def output_face_key_def)
  from assms(1) have "[0..<?n] \<noteq> []" by simp
  then show "triface_marker_map out \<noteq> []"
    unfolding m by (rule fold_update_nonempty)
  show "(case map_of (triface_marker_map out) key of Some v \<Rightarrow> v | None \<Rightarrow> 0)
           = last_wins_marker tfl tml ?n key"
    unfolding m
    by (simp add: map_of_fold_update last_wins_marker_def split: option.splits)
qed

lemma boundary_markers_eq:
  "boundary_markers m faces
     = \<lparr>ndim = 1, shape = [shape faces ! 0],
        data = map (\<lambda>i. case map_of m (face_key (at2 faces i 0) (at2 faces i 1) (at2 faces i 2)) of
                           Some v \<Rightarrow> v
                         | None \<Rightarrow> 0)
                 [0..<shape faces ! 0]\<rparr>"
  by (simp add: boundary_markers_def fold_update_prefix)

text \<open>
  C3. When the output faces and their markers are both present, every derived boundary
  face gets the marker of the last output face with the same sorted vertex triple, as the
  map built in one forward pass stores it, and the marker \<open>0\<close> when no output face has
  that triple.
\<close>

theorem marker_reconciler:
  assumes "populate_result sw cbf out = Inr res"
    and "0 < numberoftrifaces out" "trifacelist out = Some tfl" "trifacemarkerlist out = Some tml"
    and "boundary_tri_faces res = Some bf"
  shows "\<exists>bm. boundary_tri_markers res = Some bm \<and> ndim bm = 1 \<and> shape bm = [shape bf ! 0]
           \<and> data bm
               = map (\<lambda>i. last_wins_marker tfl tml (nat (numberoftrifaces out))
                             (face_key (at2 bf i 0) (at2 bf i 1) (at2 bf i 2)))
                   [0..<shape bf ! 0]"
proof -
  from populate_markers(1) [OF assms(1,5)] triface_marker_map_lookup(1) [OF assms(2,3,4)]
  have "boundary_tri_markers res = Some (boundary_markers (triface_marker_map out) bf)"
    by simp
  then show ?thesis
    by (simp add: boundary_markers_eq triface_marker_map_lookup(2) [OF assms(2,3,4)])
qed

theorem marker_reconciler_witness:
  "populate_result (PyStr ''pq'') True out_w = Inr res_w
     \<and> 0 < numberoftrifaces out_w
     \<and> trifacelist out_w = Some [1, 2, 3, 0, 2, 3, 0, 1, 3, 3, 2, 1]
     \<and> trifacemarkerlist out_w = Some [- 3, - 2, 8, 9]
     \<and> boundary_tri_faces res_w = Some bf_w
     \<and> (\<exists>bm. boundary_tri_markers res_w = Some bm \<and> ndim bm = 1 \<and> shape bm = [4]
            \<and> data bm = [9, - 2, 8, 0])"
proof -
  have b: "boundary_tri_faces res_w = Some bf_w" by (simp add: res_w_def)
  have e: "map (\<lambda>i. last_wins_marker [1, 2, 3, 0, 2, 3, 0, 1, 3, 3, 2, 1] [- 3, - 2, 8, 9]
                      (nat (numberoftrifaces out_w))
                      (face_key (at2 bf_w i 0) (at2 bf_w i 1) (at2 bf_w i 2)))
             [0..<4] = [9, - 2, 8, 0]"
    by code_simp
  have s: "shape bf_w ! 0 = 4" by (simp add: bf_w_def)
  from marker_reconciler [OF populate_out_w out_w_fields(1,2,3) b]
  have "\<exists>bm. boundary_tri_markers res_w = Some bm \<and> ndim bm = 1 \<and> shape bm = [4]
            \<and> data bm = [9, - 2, 8, 0]"
    unfolding s e .
  with populate_out_w out_w_fields b show ?thesis by simp
qed

lemma face_key_perm:
  assumes "mset [a, b, c] = mset [a', b', c']"
  shows "face_key a b c = face_key a' b' c'"
proof -
  have "mset (sort [a', b', c']) = mset [a, b, c]" using assms by simp
  moreover have "sorted (sort [a', b', c'])" by (rule sorted_sort)
  ultimately have "sort [a, b, c] = sort [a', b', c']" by (rule properties_for_sort)
  then show ?thesis by (simp only: face_key_def)
qed

lemma boundary_markers_perm:
  assumes "shape f ! 0 = shape f' ! 0"
    and "\<forall>i<shape f ! 0. mset [at2 f i 0, at2 f i 1, at2 f i 2]
                            = mset [at2 f' i 0, at2 f' i 1, at2 f' i 2]"
  shows "boundary_markers m f = boundary_markers m f'"
proof -
  have "\<And>i. i < shape f ! 0 \<Longrightarrow>
      face_key (at2 f i 0) (at2 f i 1) (at2 f i 2) = face_key (at2 f' i 0) (at2 f' i 1) (at2 f' i 2)"
    using assms(2) by (intro face_key_perm) simp
  then have "map (\<lambda>i. case map_of m (face_key (at2 f i 0) (at2 f i 1) (at2 f i 2)) of
                           Some v \<Rightarrow> v | None \<Rightarrow> 0) [0..<shape f ! 0]
      = map (\<lambda>i. case map_of m (face_key (at2 f' i 0) (at2 f' i 1) (at2 f' i 2)) of
                           Some v \<Rightarrow> v | None \<Rightarrow> 0) [0..<shape f ! 0]"
    by (intro map_cong refl) simp
  then show ?thesis using assms(1) by (simp add: boundary_markers_eq)
qed

lemma populate_faces_unsorted:
  assumes "populate_result sw cbf out = Inr res" "boundary_tri_faces res = Some bf"
  shows "\<exists>nb. neighbors res = Some nb
           \<and> compute_boundary_face_tris (tets res) nb = Inr bf
           \<and> data bf = concat (map (boundary_tri (tets res)) (boundary_pairs nb (shape (tets res) ! 0)))"
proof -
  note d = populate_markers(3,4) [OF assms]
  have t: "\<not> (tetrahedronlist out = None \<or> numberoftetrahedra out \<le> 0 \<or> numberofcorners out \<noteq> 4)"
  proof
    assume "tetrahedronlist out = None \<or> numberoftetrahedra out \<le> 0 \<or> numberofcorners out \<noteq> 4"
    from populate_TetsShape [OF d this, of sw] assms show False by simp
  qed
  then have t': "tetrahedronlist out \<noteq> None" "0 < numberoftetrahedra out" "numberofcorners out = 4"
    by auto
  let ?tt = "to_array (tetrahedronlist out) (numberoftetrahedra out) 4"
  let ?nb = "to_array (neighborlist out) (numberoftetrahedra out) 4"
  have tets: "tets res = ?tt" using populate_fields(2) [OF assms(1)] t' by simp
  have nbs: "neighbors res = Some ?nb" using populate_fields(8) [OF assms(1)] d by simp
  have sh: "shape ?tt ! 0 = nat (numberoftetrahedra out)"
    using t' by (auto simp: to_array_def split: option.splits)
  from populate_markers(2) [OF assms] tets nbs
  have c: "compute_boundary_face_tris ?tt ?nb = Inr bf" by simp
  with derive_ok [OF t'(1,2) d(2)] have "data bf
      = concat (map (boundary_tri ?tt) (boundary_pairs ?nb (nat (numberoftetrahedra out))))"
    by auto
  with c tets nbs sh show ?thesis by simp
qed

text \<open>
  C4. Two triangles whose vertex triples are permutations of each other have the same
  key, so boundary faces that differ only in the order of their vertices get the same
  markers; the boundary faces stored in the result are the extractor's own triangles, in
  the vertex order of the local face pattern.
\<close>

theorem canonical_key_stability:
  "(mset [a, b, c] = mset [a', b', c'] \<longrightarrow> face_key a b c = face_key a' b' c')
   \<and> (shape f ! 0 = shape f' ! 0
        \<and> (\<forall>i<shape f ! 0. mset [at2 f i 0, at2 f i 1, at2 f i 2]
                               = mset [at2 f' i 0, at2 f' i 1, at2 f' i 2])
        \<longrightarrow> boundary_markers m f = boundary_markers m f')
   \<and> (\<forall>res bf. populate_result sw cbf out = Inr res \<and> boundary_tri_faces res = Some bf
        \<longrightarrow> (\<exists>nb. neighbors res = Some nb
               \<and> compute_boundary_face_tris (tets res) nb = Inr bf
               \<and> data bf = concat (map (boundary_tri (tets res))
                                      (boundary_pairs nb (shape (tets res) ! 0)))))"
proof (intro conjI allI impI)
  assume "mset [a, b, c] = mset [a', b', c']"
  then show "face_key a b c = face_key a' b' c'" by (rule face_key_perm)
next
  assume "shape f ! 0 = shape f' ! 0
        \<and> (\<forall>i<shape f ! 0. mset [at2 f i 0, at2 f i 1, at2 f i 2]
                               = mset [at2 f' i 0, at2 f' i 1, at2 f' i 2])"
  then show "boundary_markers m f = boundary_markers m f'"
    by (elim conjE) (rule boundary_markers_perm)
next
  fix res bf
  assume "populate_result sw cbf out = Inr res \<and> boundary_tri_faces res = Some bf"
  then show "\<exists>nb. neighbors res = Some nb
               \<and> compute_boundary_face_tris (tets res) nb = Inr bf
               \<and> data bf = concat (map (boundary_tri (tets res))
                                      (boundary_pairs nb (shape (tets res) ! 0)))"
    by (elim conjE) (rule populate_faces_unsorted)
qed

lemma rows4: "i < (4::nat) \<Longrightarrow> i = 0 \<or> i = 1 \<or> i = 2 \<or> i = 3"
  by arith

theorem canonical_key_stability_witness:
  "mset [1, 2, 3 :: int] = mset [3, 2, 1] \<and> face_key 1 2 3 = face_key 3 2 1
     \<and> shape bf_w ! 0 = shape bf_sorted ! 0
     \<and> list_all (\<lambda>i. mset [at2 bf_w i 0, at2 bf_w i 1, at2 bf_w i 2]
                       = mset [at2 bf_sorted i 0, at2 bf_sorted i 1, at2 bf_sorted i 2])
           [0..<shape bf_w ! 0]
     \<and> boundary_markers (triface_marker_map out_w) bf_w
         = boundary_markers (triface_marker_map out_w) bf_sorted
     \<and> populate_result (PyStr ''pq'') True out_w = Inr res_w
     \<and> boundary_tri_faces res_w = Some bf_w
     \<and> data bf_w = [1, 2, 3, 0, 3, 2, 0, 1, 3, 0, 2, 1]
     \<and> compute_boundary_face_tris (tets res_w) (the (neighbors res_w)) = Inr bf_w"
proof -
  note t = canonical_key_stability [of 1 2 3 3 2 1 bf_w bf_sorted "triface_marker_map out_w"
      "PyStr ''pq''" True out_w]
  have h1: "mset [1, 2, 3 :: int] = mset [3, 2, 1]" by simp
  have h2: "shape bf_w ! 0 = shape bf_sorted ! 0" by (simp add: bf_w_def bf_sorted_def)
  have h3: "\<forall>i<shape bf_w ! 0. mset [at2 bf_w i 0, at2 bf_w i 1, at2 bf_w i 2]
            = mset [at2 bf_sorted i 0, at2 bf_sorted i 1, at2 bf_sorted i 2]"
  proof (intro allI impI)
    fix i assume "i < shape bf_w ! 0"
    then have "i = 0 \<or> i = 1 \<or> i = 2 \<or> i = 3" by (intro rows4) (simp add: bf_w_def)
    then show "mset [at2 bf_w i 0, at2 bf_w i 1, at2 bf_w i 2]
            = mset [at2 bf_sorted i 0, at2 bf_sorted i 1, at2 bf_sorted i 2]"
      by (auto simp: bf_w_def bf_sorted_def at2_def)
  qed
  have h4: "boundary_tri_faces res_w = Some bf_w" by (simp add: res_w_def)
  from t h1 have c1: "face_key 1 2 3 = face_key 3 2 1" by blast
  from t h2 h3 have c2: "boundary_markers (triface_marker_map out_w) bf_w
         = boundary_markers (triface_marker_map out_w) bf_sorted" by blast
  from t populate_out_w h4 have "\<exists>nb. neighbors res_w = Some nb
      \<and> compute_boundary_face_tris (tets res_w) nb = Inr bf_w" by blast
  then have c3: "compute_boundary_face_tris (tets res_w) (the (neighbors res_w)) = Inr bf_w"
    by auto
  have d: "data bf_w = [1, 2, 3, 0, 3, 2, 0, 1, 3, 0, 2, 1]" by (simp add: bf_w_def)
  from h3 have h3': "list_all (\<lambda>i. mset [at2 bf_w i 0, at2 bf_w i 1, at2 bf_w i 2]
                       = mset [at2 bf_sorted i 0, at2 bf_sorted i 1, at2 bf_sorted i 2])
           [0..<shape bf_w ! 0]"
    by (simp add: list_all_iff)
  from h1 h2 h3' h4 c1 c2 c3 d populate_out_w show ?thesis by blast
qed

subsection \<open>Legacy entry point\<close>

lemma assemble_plc_Inr_valid:
  assumes "fits_int (shape V ! 0)" "fits_int (shape F ! 0)" "assemble_plc V F mk loops = Inr inp"
  shows "valid_input V F mk loops"
proof (rule ccontr)
  assume "\<not> valid_input V F mk loops"
  from validate_invalid [OF assms(1,2) this] assms(3) show False
    by (auto simp: assemble_plc_def)
qed

lemma marker_value_None: "marker_value None = (\<lambda>fi. - 1)"
  by (simp add: marker_value_def fun_eq_iff)

lemma flags_in_buffer:
  "CHR ''n'' \<in> set (payload @ missing_flags True payload @ [NUL])
     \<and> CHR ''f'' \<in> set (payload @ missing_flags True payload @ [NUL])"
proof -
  have "set (c_string payload) \<subseteq> set payload"
    by (auto simp: c_string_def dest: set_takeWhileD)
  then show ?thesis by (auto simp: missing_flags_def)
qed

lemma flags_in_c_string:
  assumes "NUL \<notin> set payload"
  shows "CHR ''n'' \<in> set (c_string (payload @ missing_flags True payload @ [NUL]))
           \<and> CHR ''f'' \<in> set (c_string (payload @ missing_flags True payload @ [NUL]))"
proof -
  have m: "NUL \<notin> set (missing_flags True payload)"
    by (simp add: missing_flags_def NUL_def)
  have 1: "takeWhile (\<lambda>c. c \<noteq> NUL) (payload @ missing_flags True payload @ [NUL])
      = payload @ takeWhile (\<lambda>c. c \<noteq> NUL) (missing_flags True payload @ [NUL])"
    by (rule takeWhile_append2) (use assms in auto)
  have 2: "takeWhile (\<lambda>c. c \<noteq> NUL) (missing_flags True payload @ [NUL])
      = missing_flags True payload @ takeWhile (\<lambda>c. c \<noteq> NUL) [NUL]"
    by (rule takeWhile_append2) (use m in auto)
  have "c_string (payload @ missing_flags True payload @ [NUL])
      = payload @ missing_flags True payload"
    by (simp add: c_string_def 1 2)
  moreover have "c_string payload = payload"
    using assms by (auto simp: c_string_def takeWhile_eq_all_conv)
  ultimately show ?thesis by (auto simp: missing_flags_def)
qed

lemma normalize_switches_Inr:
  assumes "normalize_switches sw cbf = Inr buf"
  shows "\<exists>payload. payload_bytes sw = Some payload \<and> buf = payload @ missing_flags cbf payload @ [NUL]"
proof (cases "payload_bytes sw")
  case None
  with assms show ?thesis
    by (cases sw) (simp_all add: payload_bytes_def normalize_switches_def switch_buffer_def split: if_splits)
next
  case (Some payload)
  then have "normalize_switches sw cbf = Inr (payload @ missing_flags cbf payload @ [NUL])"
    by (cases sw)
       (simp_all add: payload_bytes_def normalize_switches_def switch_buffer_def ensure_flags_eq
          split: if_splits)
  with assms Some show ?thesis by simp
qed

lemma valid_w_None: "valid_input V_w F_w None loops_w"
  using valid_w by (simp add: valid_input_def)

lemma build_calls:
  "fst (build_volume_mesh gen V F loops sw) = fst (tetrahedralize_core gen V F None loops sw True)"
  by (simp add: build_volume_mesh_def split: prod.splits sum.splits)

lemma populate_rich:
  assumes "\<not> (neighborlist out \<noteq> None
              \<and> (tetrahedronlist out = None \<or> numberoftetrahedra out \<le> 0 \<or> numberofcorners out \<noteq> 4))"
  shows "\<exists>io. populate_result sw True out = Inr io \<and> rich_outputs out io"
proof (cases "neighborlist out = None")
  case True
  from populate_no_derivation [of out True sw] True obtain io where
    io: "populate_result sw True out = Inr io" "boundary_tri_faces io = None"
      "boundary_tri_markers io = None"
    by blast
  note f = populate_fields [OF io(1)]
  have "rich_outputs out io"
    unfolding rich_outputs_def
    using f(1-11) io(2,3) True by simp
  with io(1) show ?thesis by blast
next
  case False
  with assms have t: "tetrahedronlist out \<noteq> None" "0 < numberoftetrahedra out"
    "numberofcorners out = 4"
    by auto
  from populate_derived [OF _ False t, of True sw] obtain io bf where
    io: "populate_result sw True out = Inr io"
      "compute_boundary_face_tris
         (to_array (tetrahedronlist out) (numberoftetrahedra out) 4)
         (to_array (neighborlist out) (numberoftetrahedra out) 4) = Inr bf"
      "boundary_tri_faces io = Some bf"
      "boundary_tri_markers io
         = (if triface_marker_map out \<noteq> []
            then Some (boundary_markers (triface_marker_map out) bf) else None)"
    by auto
  note f = populate_fields [OF io(1)]
  have "rich_outputs out io"
    unfolding rich_outputs_def
    using f(1-11) io(2,3,4) False t(3) by simp
  with io(1) show ?thesis by blast
qed

lemma legacy_after_assembly:
  assumes "assemble_plc V F None loops = Inr inp" "normalize_switches sw True = Inr buf"
  shows "case gen buf inp of
           ThrowsStd msg \<Rightarrow>
             build_volume_mesh gen V F loops sw = ([(buf, inp)], Inl (TetGenFailed msg))
         | ThrowsOther \<Rightarrow>
             build_volume_mesh gen V F loops sw = ([(buf, inp)], Inl TetGenFailedUnknown)
         | Returns out \<Rightarrow>
             if neighborlist out \<noteq> None
                \<and> (tetrahedronlist out = None \<or> numberoftetrahedra out \<le> 0
                     \<or> numberofcorners out \<noteq> 4)
             then build_volume_mesh gen V F loops sw = ([(buf, inp)], Inl TetsShape)
             else \<exists>io. tetrahedralize_core gen V F None loops sw True = ([(buf, inp)], Inr io)
                    \<and> rich_outputs out io
                    \<and> build_volume_mesh gen V F loops sw
                        = ([(buf, inp)],
                           Inr (to_array (pointlist out) (numberofpoints out) 3,
                                to_array (tetrahedronlist out) (numberoftetrahedra out)
                                  (numberofcorners out)))"
proof (cases "gen buf inp")
  case (ThrowsStd msg)
  with assms show ?thesis by (simp add: build_volume_mesh_def tetrahedralize_core_def)
next
  case ThrowsOther
  with assms show ?thesis by (simp add: build_volume_mesh_def tetrahedralize_core_def)
next
  case (Returns out)
  with assms have core: "tetrahedralize_core gen V F None loops sw True
      = ([(buf, inp)], populate_result sw True out)"
    by (simp add: tetrahedralize_core_def)
  show ?thesis
  proof (cases "neighborlist out \<noteq> None
                \<and> (tetrahedronlist out = None \<or> numberoftetrahedra out \<le> 0
                     \<or> numberofcorners out \<noteq> 4)")
    case True
    then have "populate_result sw True out = Inl TetsShape"
      by (intro populate_TetsShape) simp_all
    with core Returns True show ?thesis by (simp add: build_volume_mesh_def)
  next
    case False
    from populate_rich [OF False, of sw] obtain io where
      io: "populate_result sw True out = Inr io" "rich_outputs out io" by blast
    from io(2) have pt: "points io = to_array (pointlist out) (numberofpoints out) 3"
      "tets io = to_array (tetrahedronlist out) (numberoftetrahedra out) (numberofcorners out)"
      by (simp_all add: rich_outputs_def)
    from core io(1) have c: "tetrahedralize_core gen V F None loops sw True = ([(buf, inp)], Inr io)"
      by simp
    then have "build_volume_mesh gen V F loops sw
        = ([(buf, inp)],
           Inr (to_array (pointlist out) (numberofpoints out) 3,
                to_array (tetrahedronlist out) (numberoftetrahedra out) (numberofcorners out)))"
      by (simp add: build_volume_mesh_def pt)
    with c io(2) Returns False show ?thesis by auto
  qed
qed

text \<open>
  C9, amended. \<open>build_volume_mesh\<close> runs the core routine without facet markers and with
  derivation enabled. The buffer of every generator call is the payload, then each of the
  flags \<open>n\<close> and \<open>f\<close> that does not occur before the first NUL of the payload, then a
  NUL: it holds both flags, and so does its C string when the payload has no NUL. Every
  mesh facet has the marker \<open>-1\<close>. When the generator throws, the call raises the
  generation failure. When it returns, the rich outputs are computed: a non-null adjacency
  buffer with missing tetrahedra or a corner count other than 4 makes the legacy call raise
  the shape error of the derivation; otherwise the core routine produces its whole result,
  boundary faces and markers included, and the legacy call returns the marshalled points
  and tetrahedra of it alone. The extents are taken to fit a C \<^verbatim>\<open>int\<close>.
\<close>

theorem legacy_entry_point:
  assumes "extents_fit V F loops"
  shows "build_volume_mesh gen V F loops sw
           = (fst (tetrahedralize_core gen V F None loops sw True),
              map_sum id (\<lambda>io. (points io, tets io))
                (snd (tetrahedralize_core gen V F None loops sw True)))
         \<and> (\<forall>(buf, inp)\<in>set (fst (build_volume_mesh gen V F loops sw)).
               CHR ''n'' \<in> set buf \<and> CHR ''f'' \<in> set buf
               \<and> (\<exists>payload. payload_bytes sw = Some payload
                      \<and> buf = payload @ missing_flags True payload @ [NUL]
                      \<and> (NUL \<notin> set payload
                            \<longrightarrow> CHR ''n'' \<in> set (c_string buf) \<and> CHR ''f'' \<in> set (c_string buf)))
               \<and> facetmarkerlist inp
                   = Some (replicate (shape F ! 0) (- 1) @ expected_loop_markers (length loops)))
         \<and> (\<forall>inp buf. assemble_plc V F None loops = Inr inp \<and> normalize_switches sw True = Inr buf
               \<longrightarrow> (case gen buf inp of
                      ThrowsStd msg \<Rightarrow>
                        build_volume_mesh gen V F loops sw = ([(buf, inp)], Inl (TetGenFailed msg))
                    | ThrowsOther \<Rightarrow>
                        build_volume_mesh gen V F loops sw = ([(buf, inp)], Inl TetGenFailedUnknown)
                    | Returns out \<Rightarrow>
                        if neighborlist out \<noteq> None
                           \<and> (tetrahedronlist out = None \<or> numberoftetrahedra out \<le> 0
                                \<or> numberofcorners out \<noteq> 4)
                        then build_volume_mesh gen V F loops sw = ([(buf, inp)], Inl TetsShape)
                        else \<exists>io. tetrahedralize_core gen V F None loops sw True
                                     = ([(buf, inp)], Inr io)
                               \<and> rich_outputs out io
                               \<and> build_volume_mesh gen V F loops sw
                                   = ([(buf, inp)],
                                      Inr (to_array (pointlist out) (numberofpoints out) 3,
                                           to_array (tetrahedronlist out) (numberoftetrahedra out)
                                             (numberofcorners out)))))"
proof (intro conjI)
  show eq: "build_volume_mesh gen V F loops sw
           = (fst (tetrahedralize_core gen V F None loops sw True),
              map_sum id (\<lambda>io. (points io, tets io))
                (snd (tetrahedralize_core gen V F None loops sw True)))"
    by (simp add: build_volume_mesh_def split: prod.splits sum.splits)
  show "\<forall>(buf, inp)\<in>set (fst (build_volume_mesh gen V F loops sw)).
               CHR ''n'' \<in> set buf \<and> CHR ''f'' \<in> set buf
               \<and> (\<exists>payload. payload_bytes sw = Some payload
                      \<and> buf = payload @ missing_flags True payload @ [NUL]
                      \<and> (NUL \<notin> set payload
                            \<longrightarrow> CHR ''n'' \<in> set (c_string buf) \<and> CHR ''f'' \<in> set (c_string buf)))
               \<and> facetmarkerlist inp
                   = Some (replicate (shape F ! 0) (- 1) @ expected_loop_markers (length loops))"
  proof (clarify)
    fix buf inp
    assume "(buf, inp) \<in> set (fst (build_volume_mesh gen V F loops sw))"
    then have "(buf, inp) \<in> set (fst (tetrahedralize_core gen V F None loops sw True))"
      by (simp add: eq)
    then have a: "assemble_plc V F None loops = Inr inp" and n: "normalize_switches sw True = Inr buf"
      by (auto simp: core_calls split: sum.splits)
    from assms have fits: "fits_int (shape V ! 0)" "fits_int (shape F ! 0)"
      and B: "int (length loops) \<le> INT_MAX"
      by (simp_all add: extents_fit_def fits_int_def)
    from assemble_plc_Inr_valid [OF fits a] have "valid_input V F None loops" .
    from assemble_plc_valid [OF this assms] a
    have "facetmarkerlist inp
        = Some (map (marker_value None) [0..<shape F ! 0] @ map loop_marker [0..<length loops])"
      by simp
    moreover have "map (marker_value None) [0..<shape F ! 0] = replicate (shape F ! 0) (- 1)"
      by (simp add: marker_value_None map_replicate_const)
    moreover have "map loop_marker [0..<length loops] = expected_loop_markers (length loops)"
      unfolding expected_loop_markers_def using B
      by (intro map_cong refl loop_marker_eq) simp
    ultimately have m: "facetmarkerlist inp
        = Some (replicate (shape F ! 0) (- 1) @ expected_loop_markers (length loops))"
      by simp
    from normalize_switches_Inr [OF n] obtain payload where
      p: "payload_bytes sw = Some payload" "buf = payload @ missing_flags True payload @ [NUL]"
      by blast
    have c: "NUL \<notin> set payload
        \<longrightarrow> CHR ''n'' \<in> set (c_string buf) \<and> CHR ''f'' \<in> set (c_string buf)"
      using flags_in_c_string [of payload] p(2) by simp
    have b: "CHR ''n'' \<in> set buf \<and> CHR ''f'' \<in> set buf"
      using flags_in_buffer [of payload] p(2) by simp
    from p c have "\<exists>payload. payload_bytes sw = Some payload
                      \<and> buf = payload @ missing_flags True payload @ [NUL]
                      \<and> (NUL \<notin> set payload
                            \<longrightarrow> CHR ''n'' \<in> set (c_string buf) \<and> CHR ''f'' \<in> set (c_string buf))"
      by blast
    with b m
    show "CHR ''n'' \<in> set buf \<and> CHR ''f'' \<in> set buf
               \<and> (\<exists>payload. payload_bytes sw = Some payload
                      \<and> buf = payload @ missing_flags True payload @ [NUL]
                      \<and> (NUL \<notin> set payload
                            \<longrightarrow> CHR ''n'' \<in> set (c_string buf) \<and> CHR ''f'' \<in> set (c_string buf)))
               \<and> facetmarkerlist inp
                   = Some (replicate (shape F ! 0) (- 1) @ expected_loop_markers (length loops))"
      by blast
  qed
  show "\<forall>inp buf. assemble_plc V F None loops = Inr inp \<and> normalize_switches sw True = Inr buf
               \<longrightarrow> (case gen buf inp of
                      ThrowsStd msg \<Rightarrow>
                        build_volume_mesh gen V F loops sw = ([(buf, inp)], Inl (TetGenFailed msg))
                    | ThrowsOther \<Rightarrow>
                        build_volume_mesh gen V F loops sw = ([(buf, inp)], Inl TetGenFailedUnknown)
                    | Returns out \<Rightarrow>
                        if neighborlist out \<noteq> None
                           \<and> (tetrahedronlist out = None \<or> numberoftetrahedra out \<le> 0
                                \<or> numberofcorners out \<noteq> 4)
                        then build_volume_mesh gen V F loops sw = ([(buf, inp)], Inl TetsShape)
                        else \<exists>io. tetrahedralize_core gen V F None loops sw True
                                     = ([(buf, inp)], Inr io)
                               \<and> rich_outputs out io
                               \<and> build_volume_mesh gen V F loops sw
                                   = ([(buf, inp)],
                                      Inr (to_array (pointlist out) (numberofpoints out) 3,
                                           to_array (tetrahedronlist out) (numberoftetrahedra out)
                                             (numberofcorners out))))"
  proof (intro allI impI)
    fix inp buf
    assume "assemble_plc V F None loops = Inr inp \<and> normalize_switches sw True = Inr buf"
    then have "assemble_plc V F None loops = Inr inp" "normalize_switches sw True = Inr buf"
      by simp_all
    then show "case gen buf inp of
                      ThrowsStd msg \<Rightarrow>
                        build_volume_mesh gen V F loops sw = ([(buf, inp)], Inl (TetGenFailed msg))
                    | ThrowsOther \<Rightarrow>
                        build_volume_mesh gen V F loops sw = ([(buf, inp)], Inl TetGenFailedUnknown)
                    | Returns out \<Rightarrow>
                        if neighborlist out \<noteq> None
                           \<and> (tetrahedronlist out = None \<or> numberoftetrahedra out \<le> 0
                                \<or> numberofcorners out \<noteq> 4)
                        then build_volume_mesh gen V F loops sw = ([(buf, inp)], Inl TetsShape)
                        else \<exists>io. tetrahedralize_core gen V F None loops sw True
                                     = ([(buf, inp)], Inr io)
                               \<and> rich_outputs out io
                               \<and> build_volume_mesh gen V F loops sw
                                   = ([(buf, inp)],
                                      Inr (to_array (pointlist out) (numberofpoints out) 3,
                                           to_array (tetrahedronlist out) (numberoftetrahedra out)
                                             (numberofcorners out)))"
      by (rule legacy_after_assembly)
  qed
qed

theorem legacy_entry_point_witness:
  "extents_fit V_w F_w loops_w
     \<and> build_volume_mesh gen_w V_w F_w loops_w (PyStr ''pq'')
         = ([(''pqnf'' @ [NUL], projr (assemble_plc V_w F_w None loops_w))],
            Inr (points res_w, tets res_w))
     \<and> facetmarkerlist (projr (assemble_plc V_w F_w None loops_w)) = Some [- 1, - 1, - 2, - 3]
     \<and> tetrahedralize_core gen_w V_w F_w None loops_w (PyStr ''pq'') True
         = ([(''pqnf'' @ [NUL], projr (assemble_plc V_w F_w None loops_w))], Inr res_w)
     \<and> rich_outputs out_w res_w
     \<and> boundary_tri_faces res_w = Some bf_w
     \<and> boundary_tri_markers res_w = Some \<lparr>ndim = 1, shape = [4], data = [9, - 2, 8, 0]\<rparr>
     \<and> numberofcorners out_ho = 10
     \<and> build_volume_mesh gen_ho V_w F_w loops_w (PyStr ''pq'')
         = ([(''pqnf'' @ [NUL], projr (assemble_plc V_w F_w None loops_w))], Inl TetsShape)"
proof -
  from assemble_plc_valid [OF valid_w_None extents_w] obtain inp where
    a: "assemble_plc V_w F_w None loops_w = Inr inp" by blast
  have n: "normalize_switches (PyStr ''pq'') True = Inr (''pqnf'' @ [NUL])"
    by (simp add: normalize_switches_def switch_buffer_def ensure_flags_def NUL_def)
  have core: "tetrahedralize_core gen_w V_w F_w None loops_w (PyStr ''pq'') True
      = ([(''pqnf'' @ [NUL], inp)], Inr res_w)"
    using a n by (simp add: tetrahedralize_core_def gen_w_def populate_out_w)
  note t = legacy_entry_point [OF extents_w, of gen_w "PyStr ''pq''"]
  from t core have b: "build_volume_mesh gen_w V_w F_w loops_w (PyStr ''pq'')
         = ([(''pqnf'' @ [NUL], inp)], Inr (points res_w, tets res_w))"
    by simp
  from t b have "facetmarkerlist inp
      = Some (replicate (shape F_w ! 0) (- 1) @ expected_loop_markers (length loops_w))"
    by simp
  then have m: "facetmarkerlist inp = Some [- 1, - 1, - 2, - 3]"
    by (simp add: F_w_def loops_w_def expected_loop_markers_def upt2 numeral_2_eq_2)
  have ow: "(neighborlist out_w \<noteq> None
               \<and> (tetrahedronlist out_w = None \<or> numberoftetrahedra out_w \<le> 0
                    \<or> numberofcorners out_w \<noteq> 4)) = False"
    by (simp add: out_w_def tetgenio_init_def)
  from t a n have "case gen_w (''pqnf'' @ [NUL]) inp of
        ThrowsStd msg \<Rightarrow> True | ThrowsOther \<Rightarrow> True
      | Returns out \<Rightarrow>
          if neighborlist out \<noteq> None
             \<and> (tetrahedronlist out = None \<or> numberoftetrahedra out \<le> 0
                  \<or> numberofcorners out \<noteq> 4)
          then True
          else \<exists>io. tetrahedralize_core gen_w V_w F_w None loops_w (PyStr ''pq'') True
                       = ([(''pqnf'' @ [NUL], inp)], Inr io)
                 \<and> rich_outputs out io"
    by (auto split: generated.splits)
  then have "\<exists>io. tetrahedralize_core gen_w V_w F_w None loops_w (PyStr ''pq'') True
                       = ([(''pqnf'' @ [NUL], inp)], Inr io)
                 \<and> rich_outputs out_w io"
    by (simp only: gen_w_def generated.case ow if_False)
  with core have r: "rich_outputs out_w res_w" by auto
  have bf: "boundary_tri_faces res_w = Some bf_w"
    "boundary_tri_markers res_w = Some \<lparr>ndim = 1, shape = [4], data = [9, - 2, 8, 0]\<rparr>"
    by (simp_all add: res_w_def)
  have ho: "(neighborlist out_ho \<noteq> None
               \<and> (tetrahedronlist out_ho = None \<or> numberoftetrahedra out_ho \<le> 0
                    \<or> numberofcorners out_ho \<noteq> 4)) = True" "numberofcorners out_ho = 10"
    by (simp_all add: out_ho_def out_w_def tetgenio_init_def)
  note t' = legacy_entry_point [OF extents_w, of gen_ho "PyStr ''pq''"]
  from t' a n have "case gen_ho (''pqnf'' @ [NUL]) inp of
        ThrowsStd msg \<Rightarrow> True | ThrowsOther \<Rightarrow> True
      | Returns out \<Rightarrow>
          if neighborlist out \<noteq> None
             \<and> (tetrahedronlist out = None \<or> numberoftetrahedra out \<le> 0
                  \<or> numberofcorners out \<noteq> 4)
          then build_volume_mesh gen_ho V_w F_w loops_w (PyStr ''pq'')
                 = ([(''pqnf'' @ [NUL], inp)], Inl TetsShape)
          else True"
    by (auto split: generated.splits)
  then have h: "build_volume_mesh gen_ho V_w F_w loops_w (PyStr ''pq'')
                 = ([(''pqnf'' @ [NUL], inp)], Inl TetsShape)"
    by (simp only: gen_ho_def generated.case ho(1) if_True)
  from extents_w b m core r bf ho(2) h a show ?thesis by simp
qed

text \<open>
  For the payload \<open>p\<close>, NUL the flags are appended to the buffer behind the NUL: the C
  string the generator reads is \<open>p\<close> and holds neither flag.
\<close>

theorem legacy_entry_point_counterexample:
  "map fst (fst (build_volume_mesh gen_w V_w F_w loops_w (PyStr payload_cut)))
       = [payload_cut @ ''nf'' @ [NUL]]
     \<and> c_string (payload_cut @ ''nf'' @ [NUL]) = ''p''
     \<and> CHR ''n'' \<notin> set (c_string (payload_cut @ ''nf'' @ [NUL]))
     \<and> CHR ''f'' \<notin> set (c_string (payload_cut @ ''nf'' @ [NUL]))"
proof -
  from assemble_plc_valid [OF valid_w_None extents_w] obtain inp where
    a: "assemble_plc V_w F_w None loops_w = Inr inp" by blast
  have n: "normalize_switches (PyStr payload_cut) True = Inr (payload_cut @ ''nf'' @ [NUL])"
    by (simp add: payload_cut_def normalize_switches_def switch_buffer_def ensure_flags_def NUL_def)
  have "fst (build_volume_mesh gen_w V_w F_w loops_w (PyStr payload_cut))
      = [(payload_cut @ ''nf'' @ [NUL], inp)]"
    by (simp add: build_calls core_calls a n)
  moreover have "c_string (payload_cut @ ''nf'' @ [NUL]) = ''p''"
    by (simp add: c_string_def payload_cut_def NUL_def)
  ultimately show ?thesis by simp
qed

end
